theory Spec2Isabelle
  imports Main "HOL-Library.Sublist" "HOL-Library.Char_ord" "HOL-Library.List_Lexorder"
    "HOL-Library.Word" "HOL-Library.Multiset"
begin

section \<open>Strings of the Go standard library\<close>

text \<open>
  A Go string is a sequence of bytes; it is modelled as a \<open>string\<close> (a list of
  \<open>char\<close>, each a byte). The line feed and the carriage return are single bytes.
\<close>

definition LF :: char where
  "LF = CHR 0x0A"

definition CR :: char where
  "CR = CHR 0x0D"

text \<open>
  \<open>strings.TrimSuffix(s, suffix)\<close>: \<open>s\<close> without the trailing \<open>suffix\<close> when
  \<open>s\<close> ends with it, \<open>s\<close> itself otherwise. One occurrence is removed, not all.
\<close>

definition trimSuffix :: "string \<Rightarrow> string \<Rightarrow> string" where
  "trimSuffix s suf = (if suffix suf s then take (length s - length suf) s else s)"

text \<open>
  \<open>strings.ReplaceAll(s, old, new)\<close> for a non-empty \<open>old\<close>: the non-overlapping
  occurrences of \<open>old\<close> are replaced from left to right. The counter is the number of
  bytes of the current occurrence still to be skipped.
\<close>

fun replaceFrom :: "nat \<Rightarrow> string \<Rightarrow> string \<Rightarrow> string \<Rightarrow> string" where
  "replaceFrom k old new [] = []"
| "replaceFrom (Suc k) old new (c # cs) = replaceFrom k old new cs"
| "replaceFrom 0 old new (c # cs) =
     (if prefix old (c # cs) then new @ replaceFrom (length old - 1) old new cs
      else c # replaceFrom 0 old new cs)"

definition replaceAll :: "string \<Rightarrow> string \<Rightarrow> string \<Rightarrow> string" where
  "replaceAll s old new = replaceFrom 0 old new s"

section \<open>controller/konnect: sanitizeCert\<close>

definition sanitizeCert :: "string \<Rightarrow> string" where
  "sanitizeCert cert =
     (let newCert = trimSuffix cert [LF];
          newCert = replaceAll newCert [CR] []
      in newCert)"

section \<open>Errors and results\<close>

text \<open>
  A failure reported by the cluster API: its reason and its message. The source asks
  \<open>k8serrors.IsNotFound\<close> and \<open>k8serrors.IsConflict\<close> of it.
\<close>

datatype statusReason = StatusReasonNotFound | StatusReasonConflict | StatusReasonOther

record apiError =
  ae_reason :: statusReason
  ae_message :: string

text \<open>
  A Go \<open>error\<close>. \<open>Errorf\<close> keeps the format string, the arguments formatted by
  \<open>%s\<close>, \<open>%q\<close> in their order, and the error wrapped by \<open>%w\<close> if the format has
  one. \<open>ErrKonnectGatewayControlPlaneNotProgrammed\<close> is the package-level value of
  \<open>controller/pkg/extensions/errors\<close>.
\<close>

datatype error =
    ErrorsNew string
  | Errorf string "string list" "error option"
  | ApiErr apiError
  | ErrKonnectGatewayControlPlaneNotProgrammed

fun isNotFound :: "apiError \<Rightarrow> bool" where
  "isNotFound e = (ae_reason e = StatusReasonNotFound)"

fun isConflict :: "apiError \<Rightarrow> bool" where
  "isConflict e = (ae_reason e = StatusReasonConflict)"

text \<open>\<open>op.Result\<close> of \<open>controller/pkg/op\<close> and \<open>ctrl.Result\<close> of controller-runtime.\<close>

datatype opResult = Noop | Created | Updated | Deleted

record ctrlResult =
  res_requeue :: bool
  res_requeueAfter :: nat

definition zeroResult :: ctrlResult where
  "zeroResult = \<lparr>res_requeue = False, res_requeueAfter = 0\<rparr>"

definition isZero :: "ctrlResult \<Rightarrow> bool" where
  "isZero r = (r = zeroResult)"

section \<open>Objects of the cluster API\<close>

text \<open>
  Go maps from string to string (labels, annotations, selectors) are given by their
  entries in key order, so that equal maps are equal lists. A Go slice is a list, and
  where the source compares slices with \<open>cmp.Equal\<close>, which tells a nil slice from an
  empty one, an optional list: \<open>None\<close> is the nil slice.
\<close>

type_synonym stringMap = "(string \<times> string) list"

type_synonym 'a slice = "'a list option"

record objectMeta =
  om_name :: string
  om_namespace :: string
  om_labels :: stringMap
  om_annotations :: stringMap

datatype conditionStatus = ConditionTrue | ConditionFalse | ConditionUnknown

record condition =
  cond_type :: string
  cond_status :: conditionStatus
  cond_reason :: string
  cond_message :: string

datatype watchNamespacesType =
    WatchNamespacesTypeAll
  | WatchNamespacesTypeOwn
  | WatchNamespacesTypeList
  | WatchNamespacesTypeOther string

record watchNamespaces =
  wn_type :: watchNamespacesType
  wn_list :: "string list"

text \<open>
  The fields of a \<open>ControlPlane\<close> the functions below read: its name and namespace,
  \<open>spec.dataPlane\<close> (a pointer to a string), \<open>spec.deployment.replicas\<close> (a pointer
  to an int32) and \<open>spec.watchNamespaces\<close> (a pointer).
\<close>

record controlPlane =
  cp_name :: string
  cp_namespace :: string
  cp_dataPlane :: "string option"
  cp_replicas :: "32 word option"
  cp_watchNamespaces :: "watchNamespaces option"

record 't deployment =
  d_meta :: objectMeta
  d_template :: 't
  d_replicas :: "32 word option"

record serviceAccount =
  sa_meta :: objectMeta

record policyRule =
  pr_apiGroups :: "string list"
  pr_resources :: "string list"
  pr_verbs :: "string list"

record clusterRole =
  cr_meta :: objectMeta
  cr_rules :: "policyRule list"
  cr_aggregationRule :: "stringMap list option"

record subject =
  sub_kind :: string
  sub_name :: string
  sub_namespace :: string

text \<open>A \<open>RoleBinding\<close> or a \<open>ClusterRoleBinding\<close>.\<close>

record binding =
  b_meta :: objectMeta
  b_roleRefName :: string
  b_subjects :: "subject list"

record servicePort =
  sp_name :: string
  sp_port :: "32 word"

record service =
  svc_meta :: objectMeta
  svc_selector :: stringMap
  svc_ports :: "servicePort list"

text \<open>
  The calls a function makes that change the cluster, in the order it makes them.
\<close>

datatype clientCall =
    ReduceDeployments
  | ReduceServiceAccounts
  | ReduceClusterRoles
  | ReduceRoleBindings
  | ReduceClusterRoleBindings
  | ReduceServices
  | ClientCreate
  | ClientPatch
  | ClientUpdate
  | ClientDelete
  | ClientDeleteAll

text \<open>
  What the cluster answers to the calls of one pass: \<open>None\<close> is success. Every
  function below makes each kind of call at most once.
\<close>

record clientEnv =
  reduceErr :: "error option"
  createErr :: "error option"
  patchErr :: "error option"
  updateErr :: "error option"
  deleteErr :: "error option"
  deleteAllErr :: "error option"

section \<open>controller/controlplane: validateWatchNamespaceGrants\<close>

record watchNamespaceGrantFrom =
  from_group :: string
  from_kind :: string
  from_namespace :: string

record watchNamespaceGrant =
  wng_from :: "watchNamespaceGrantFrom list"

text \<open>\<open>operatorv1beta1.SchemeGroupVersion.Group\<close>, the API group of the operator.\<close>

definition schemeGroup :: string where
  "schemeGroup = ''gateway-operator.konghq.com''"

text \<open>
  The client's \<open>List\<close> of the \<open>WatchNamespaceGrant\<close>s of a namespace: a failure of
  the API or the grants found there.
\<close>

type_synonym grantLister = "string \<Rightarrow> apiError + watchNamespaceGrant list"

definition fromMatches :: "controlPlane \<Rightarrow> watchNamespaceGrantFrom \<Rightarrow> bool" where
  "fromMatches cp from =
     (from_group from = schemeGroup \<and> from_kind from = ''ControlPlane'' \<and>
      from_namespace from = cp_namespace cp)"

text \<open>
  The loop over \<open>grants.Items\<close>: a grant none of whose \<open>from\<close> entries matches is
  skipped, the first one with a match ends the function with \<open>nil\<close>.
\<close>

fun grantsLoop :: "controlPlane \<Rightarrow> string \<Rightarrow> watchNamespaceGrant list \<Rightarrow> error option" where
  "grantsLoop cp ns [] =
     Some (Errorf ''WatchNamespaceGrant in Namespace %s to ControlPlane in Namespace %s not found''
       [ns, cp_namespace cp] None)"
| "grantsLoop cp ns (refGrant # items) =
     (if \<not> list_ex (fromMatches cp) (wng_from refGrant) then grantsLoop cp ns items
      else None)"

definition ensureWatchNamespaceGrantsForNamespace ::
  "grantLister \<Rightarrow> controlPlane \<Rightarrow> string \<Rightarrow> error option" where
  "ensureWatchNamespaceGrantsForNamespace cl cp ns =
     (case cl ns of
        Inl err \<Rightarrow>
          Some (Errorf ''failed listing WatchNamespaceGrants in namespace %s: %w'' [ns]
            (Some (ApiErr err)))
      | Inr grants \<Rightarrow> grantsLoop cp ns grants)"

text \<open>
  The loop of the \<open>List\<close> case. The state is \<open>nsList\<close> and the namespaces whose
  grants the client has been asked for so far; the result is the returned list, the
  returned error and those lookups.
\<close>

fun watchListLoop ::
  "grantLister \<Rightarrow> controlPlane \<Rightarrow> string list \<Rightarrow> string list \<Rightarrow> string list \<Rightarrow>
   string list \<times> error option \<times> string list" where
  "watchListLoop cl cp nsList lookups [] = (nsList @ [cp_namespace cp], None, lookups)"
| "watchListLoop cl cp nsList lookups (ns # rest) =
     (case ensureWatchNamespaceGrantsForNamespace cl cp ns of
        Some err \<Rightarrow> (nsList, Some err, lookups @ [ns])
      | None \<Rightarrow> watchListLoop cl cp (nsList @ [ns]) (lookups @ [ns]) rest)"

definition validateWatchNamespaceGrants ::
  "grantLister \<Rightarrow> controlPlane \<Rightarrow> string list \<times> error option \<times> string list" where
  "validateWatchNamespaceGrants cl cp =
     (case cp_watchNamespaces cp of
        None \<Rightarrow> ([], Some (ErrorsNew ''spec.watchNamespaces cannot be empty''), [])
      | Some wn \<Rightarrow>
          (case wn_type wn of
             WatchNamespacesTypeAll \<Rightarrow> ([], None, [])
           | WatchNamespacesTypeOwn \<Rightarrow> ([cp_namespace cp], None, [])
           | WatchNamespacesTypeList \<Rightarrow> watchListLoop cl cp [] [] (wn_list wn)
           | WatchNamespacesTypeOther t \<Rightarrow>
               ([], Some (Errorf ''unexpected watchNamespaces.type: %q'' [t] None), [])))"

section \<open>controller/konnect: ensureExtendablesReferencesInStatus\<close>

record namespacedRef =
  ref_name :: string
  ref_namespace :: "string option"

text \<open>A \<open>DataPlane\<close> or a \<open>ControlPlane\<close> of the lists handed to the function.\<close>

record extendable =
  ext_name :: string
  ext_namespace :: string
  ext_conditions :: "condition list"

text \<open>
  The status of a \<open>KonnectExtension\<close>: the two reference lists the function
  recomputes, and the rest of the status, which it leaves alone.
\<close>

record 'o konnectExtensionStatus =
  st_dataPlaneRefs :: "namespacedRef slice"
  st_controlPlaneRefs :: "namespacedRef slice"
  st_other :: 'o

definition KonnectExtensionAppliedType :: string where
  "KonnectExtensionAppliedType = ''KonnectExtensionApplied''"

text \<open>
  \<open>refToStr\<close> dereferences \<open>ref.Namespace\<close>: on a nil pointer it panics, which is
  \<open>None\<close> here.
\<close>

definition refToStr :: "namespacedRef \<Rightarrow> string option" where
  "refToStr ref =
     (case ref_namespace ref of
        None \<Rightarrow> None
      | Some ns \<Rightarrow> Some (ns @ ''/'' @ ref_name ref))"

text \<open>
  \<open>sort.Slice\<close> with \<open>refToStr(refs[i]) < refToStr(refs[j])\<close>, the bytewise order of
  Go strings. A slice shorter than two is never compared. Otherwise every element is
  compared, so one nil namespace is a panic (\<open>None\<close>); the sort is the insertion sort
  by key of the library, which is what \<open>sort.Slice\<close> runs on a short slice, and any
  other algorithm gives the same list unless two references have the same key.
\<close>

definition sortRefs :: "namespacedRef list \<Rightarrow> namespacedRef list option" where
  "sortRefs refs =
     (if length refs < 2 then Some refs
      else (case those (map refToStr refs) of
              None \<Rightarrow> None
            | Some keys \<Rightarrow> Some (map snd (sort_key fst (zip keys refs)))))"

definition hasExtensionAppliedCondition :: "condition list \<Rightarrow> bool" where
  "hasExtensionAppliedCondition conditions =
     list_ex (\<lambda>cond. cond_type cond = KonnectExtensionAppliedType \<and>
                     cond_status cond = ConditionTrue) conditions"

text \<open>
  The two loops over \<open>dps.Items\<close> and \<open>cps.Items\<close>: \<open>refs\<close> starts as the nil slice
  and \<open>append\<close> makes it a non-nil one.
\<close>

fun refsLoop :: "namespacedRef slice \<Rightarrow> extendable list \<Rightarrow> namespacedRef slice" where
  "refsLoop refs [] = refs"
| "refsLoop refs (dp # items) =
     (if \<not> hasExtensionAppliedCondition (ext_conditions dp) then refsLoop refs items
      else refsLoop
        (Some ((case refs of None \<Rightarrow> [] | Some rs \<Rightarrow> rs) @
           [\<lparr>ref_name = ext_name dp, ref_namespace = Some (ext_namespace dp)\<rparr>]))
        items)"

text \<open>\<open>sortRefs\<close> of a slice: the nil slice has length 0 and stays nil.\<close>

definition sortRefsSlice :: "namespacedRef slice \<Rightarrow> namespacedRef slice option" where
  "sortRefsSlice refs =
     (case refs of
        None \<Rightarrow> Some None
      | Some rs \<Rightarrow> map_option Some (sortRefs rs))"

text \<open>
  The result of the function: the \<open>ctrl.Result\<close> and the error it returns, the status
  of \<open>ext\<close> as it leaves it, and the statuses it has handed to
  \<open>r.Client.Status().Update\<close>.
\<close>

record 'o extendablesResult =
  er_result :: ctrlResult
  er_error :: "error option"
  er_status :: "'o konnectExtensionStatus"
  er_writes :: "'o konnectExtensionStatus list"

text \<open>
  \<open>statusUpdate\<close> is the answer of the cluster to \<open>Status().Update\<close>. The whole
  function is \<open>None\<close> when it panics.
\<close>

definition ensureExtendablesReferencesInStatus ::
  "('o konnectExtensionStatus \<Rightarrow> apiError option) \<Rightarrow> 'o konnectExtensionStatus \<Rightarrow>
   extendable list \<Rightarrow> extendable list \<Rightarrow> 'o extendablesResult option" where
  "ensureExtendablesReferencesInStatus statusUpdate extStatus dps cps =
     (let extOld = extStatus in
      case sortRefsSlice (refsLoop None dps) of
        None \<Rightarrow> None
      | Some dpRefs \<Rightarrow>
          (let ext1 = extStatus\<lparr>st_dataPlaneRefs := dpRefs\<rparr> in
           case sortRefsSlice (refsLoop None cps) of
             None \<Rightarrow> None
           | Some cpRefs \<Rightarrow>
               (let ext2 = ext1\<lparr>st_controlPlaneRefs := cpRefs\<rparr>;
                    shouldUpdate = (ext2 \<noteq> extOld)
                in if \<not> shouldUpdate then
                     Some \<lparr>er_result = zeroResult, er_error = None, er_status = ext2,
                           er_writes = []\<rparr>
                   else
                     (case statusUpdate ext2 of
                        Some err \<Rightarrow>
                          (if isConflict err then
                             Some \<lparr>er_result = zeroResult\<lparr>res_requeue := True\<rparr>,
                                   er_error = None, er_status = ext2, er_writes = [ext2]\<rparr>
                           else
                             Some \<lparr>er_result = zeroResult,
                                   er_error = Some (Errorf
                                     ''failed to update KonnectExtension ControlPlane and DataPlane references in status: %w''
                                     [] (Some (ApiErr err))),
                                   er_status = ext2, er_writes = [ext2]\<rparr>)
                      | None \<Rightarrow>
                          Some \<lparr>er_result = zeroResult\<lparr>res_requeue := True\<rparr>,
                                er_error = None, er_status = ext2, er_writes = [ext2]\<rparr>))))"

section \<open>controller/konnect: getGatewayKonnectControlPlane\<close>

record konnectGatewayControlPlane =
  kgcp_name :: string
  kgcp_namespace :: string
  kgcp_conditions :: "condition list"

text \<open>
  \<open>ext.Spec.Konnect.ControlPlane.Ref\<close>: its type with the field the type selects (the
  name of the namespaced reference, or the Konnect ID), or another type, which the
  \<open>switch\<close> of the function has no case for.
\<close>

datatype controlPlaneRef =
    ControlPlaneRefKonnectNamespacedRef string
  | ControlPlaneRefKonnectID string
  | ControlPlaneRefOther

record konnectExtension =
  ke_namespace :: string
  ke_ref :: controlPlaneRef

definition ControlPlaneRefValidConditionType :: string where
  "ControlPlaneRefValidConditionType = ''ControlPlaneRefValid''"

definition ControlPlaneRefReasonValid :: string where
  "ControlPlaneRefReasonValid = ''Valid''"

definition ControlPlaneRefReasonInvalid :: string where
  "ControlPlaneRefReasonInvalid = ''Invalid''"

definition KonnectEntityProgrammedConditionType :: string where
  "KonnectEntityProgrammedConditionType = ''Programmed''"

text \<open>
  What the function calls outside itself: the client's \<open>Get\<close> (namespace, name) and
  \<open>List\<close> (namespace, the Konnect ID of the index), \<open>patch.StatusWithConditions\<close>
  on the extension (the conditions handed over; the result and the error it returns),
  \<open>k8sutils.HasConditionTrue\<close> and \<open>k8serrors.NewNotFound\<close> (resource, name).
\<close>

record konnectClient =
  kc_get :: "string \<Rightarrow> string \<Rightarrow> apiError + konnectGatewayControlPlane"
  kc_list :: "string \<Rightarrow> string \<Rightarrow> apiError + konnectGatewayControlPlane list"
  kc_statusWithConditions :: "condition list \<Rightarrow> ctrlResult \<times> error option"
  kc_hasConditionTrue :: "string \<Rightarrow> konnectGatewayControlPlane \<Rightarrow> bool"
  kc_newNotFound :: "string \<Rightarrow> string \<Rightarrow> apiError"

text \<open>
  The result: the control plane, the \<open>ctrl.Result\<close> and the error returned, and the
  condition lists handed to \<open>patch.StatusWithConditions\<close>, in order.
\<close>

record getControlPlaneResult =
  g_cp :: "konnectGatewayControlPlane option"
  g_res :: ctrlResult
  g_err :: "error option"
  g_patches :: "condition list list"

definition emptyKonnectGatewayControlPlane :: konnectGatewayControlPlane where
  "emptyKonnectGatewayControlPlane =
     \<lparr>kgcp_name = [], kgcp_namespace = [], kgcp_conditions = []\<rparr>"

text \<open>
  The \<open>switch\<close> on the type of the reference: an error that ends the function at
  once, or \<open>cp\<close> and \<open>errGetFromK8s\<close>.
\<close>

definition lookupControlPlane ::
  "konnectClient \<Rightarrow> konnectExtension \<Rightarrow>
   error + (konnectGatewayControlPlane option \<times> apiError option)" where
  "lookupControlPlane r ext =
     (case ke_ref ext of
        ControlPlaneRefKonnectNamespacedRef name \<Rightarrow>
          (case kc_get r (ke_namespace ext) name of
             Inl err \<Rightarrow>
               (if isNotFound err then Inr (Some emptyKonnectGatewayControlPlane, Some err)
                else Inl (ApiErr err))
           | Inr kgcp \<Rightarrow> Inr (Some kgcp, None))
      | ControlPlaneRefKonnectID konnectID \<Rightarrow>
          (case kc_list r (ke_namespace ext) konnectID of
             Inl err \<Rightarrow> Inl (ApiErr err)
           | Inr kgcps \<Rightarrow>
               (case kgcps of
                  [] \<Rightarrow>
                    Inr (None, Some (kc_newNotFound r ''KonnectGatewayControlPlane''
                      (''with KonnectID '' @ konnectID @ '' in namespace '' @ ke_namespace ext)))
                | kgcp # _ \<Rightarrow> Inr (Some kgcp, None)))
      | ControlPlaneRefOther \<Rightarrow> Inr (None, None))"

text \<open>
  The function is \<open>None\<close> when it panics: with a reference of another type \<open>cp\<close> is
  nil where its conditions and its name are read.
\<close>

definition getGatewayKonnectControlPlane ::
  "konnectClient \<Rightarrow> konnectExtension \<Rightarrow> condition list \<Rightarrow> getControlPlaneResult option" where
  "getGatewayKonnectControlPlane r ext dependingConditions =
     (case lookupControlPlane r ext of
        Inl err \<Rightarrow>
          Some \<lparr>g_cp = None, g_res = zeroResult, g_err = Some err, g_patches = []\<rparr>
      | Inr (cp, errGetFromK8s) \<Rightarrow>
          (let controlPlaneRefValidCond =
                 \<lparr>cond_type = ControlPlaneRefValidConditionType, cond_status = ConditionTrue,
                  cond_reason = ControlPlaneRefReasonValid,
                  cond_message = ''ControlPlaneRef is valid''\<rparr>
           in case errGetFromK8s of
                Some errGet \<Rightarrow>
                  (let cond = controlPlaneRefValidCond
                         \<lparr>cond_status := ConditionFalse,
                          cond_reason := ControlPlaneRefReasonInvalid,
                          cond_message := ae_message errGet\<rparr>;
                       conds = dependingConditions @ [cond];
                       (res, errPatch) = kc_statusWithConditions r conds
                   in if errPatch \<noteq> None \<or> \<not> isZero res then
                        Some \<lparr>g_cp = None, g_res = res, g_err = errPatch, g_patches = [conds]\<rparr>
                      else
                        Some \<lparr>g_cp = None, g_res = zeroResult, g_err = Some (ApiErr errGet),
                              g_patches = [conds]\<rparr>)
              | None \<Rightarrow>
                  (case cp of
                     None \<Rightarrow> None
                   | Some kgcp \<Rightarrow>
                       (if \<not> kc_hasConditionTrue r KonnectEntityProgrammedConditionType kgcp then
                          (let cond = controlPlaneRefValidCond
                                 \<lparr>cond_status := ConditionFalse,
                                  cond_reason := ControlPlaneRefReasonInvalid,
                                  cond_message := ''Konnect control plane '' @ kgcp_name kgcp @
                                    ''/'' @ kgcp_namespace kgcp @ '' not programmed yet''\<rparr>;
                               conds = dependingConditions @ [cond];
                               (res, errPatch) = kc_statusWithConditions r conds
                           in if errPatch \<noteq> None \<or> \<not> isZero res then
                                Some \<lparr>g_cp = None, g_res = res, g_err = errPatch,
                                      g_patches = [conds]\<rparr>
                              else
                                Some \<lparr>g_cp = None, g_res = zeroResult,
                                      g_err = Some ErrKonnectGatewayControlPlaneNotProgrammed,
                                      g_patches = [conds]\<rparr>)
                        else
                          (let conds = [controlPlaneRefValidCond];
                               (res, errPatch) = kc_statusWithConditions r conds
                           in if errPatch \<noteq> None \<or> \<not> isZero res then
                                Some \<lparr>g_cp = None, g_res = res, g_err = errPatch,
                                      g_patches = [conds]\<rparr>
                              else
                                Some \<lparr>g_cp = Some kgcp, g_res = zeroResult, g_err = None,
                                      g_patches = [conds]\<rparr>)))))"

section \<open>controller/controlplane: processClusterRole\<close>

record groupVersion =
  gv_group :: string
  gv_version :: string

record apiResource =
  ar_name :: string
  ar_group :: string
  ar_namespaced :: bool

text \<open>
  The discovery mapping \<open>map[schema.GroupVersion]*metav1.APIResourceList\<close>, as its
  entries in the order the \<open>range\<close> over the map visits them.
\<close>

type_synonym discovery = "(groupVersion \<times> apiResource list) list"

text \<open>
  The innermost loop, over the mapping: an entry of another group is skipped, so is one
  where \<open>lo.Find\<close> finds no resource of that group and name; the first one where it
  does ends the loop (\<open>break\<close>) with \<open>found\<close> set.
\<close>

fun discoveryLoop :: "string \<Rightarrow> string \<Rightarrow> discovery \<Rightarrow> apiResource option" where
  "discoveryLoop apiGroup resource [] = None"
| "discoveryLoop apiGroup resource ((gv, apiresl) # gvl) =
     (if gv_group gv \<noteq> apiGroup then discoveryLoop apiGroup resource gvl
      else (case find (\<lambda>apires. ar_group apires = apiGroup \<and> ar_name apires = resource) apiresl of
              None \<Rightarrow> discoveryLoop apiGroup resource gvl
            | Some apires \<Rightarrow> Some apires))"

text \<open>
  The loop over the resources of the rule. It runs over the slice \<open>rule.Resources\<close>
  held when the loop started; the loop variable \<open>rule\<close>, \<open>rolePolicyRules\<close> and
  \<open>clusterRolePolicyRules\<close> are the state. A resource that is found replaces
  \<open>rule.Resources\<close> by itself before \<open>rule\<close> is appended; one that is not found
  appends \<open>rule\<close> as it is then.
\<close>

fun resourcesLoop ::
  "discovery \<Rightarrow> string \<Rightarrow> string list \<Rightarrow> policyRule \<times> policyRule list \<times> policyRule list \<Rightarrow>
   policyRule \<times> policyRule list \<times> policyRule list" where
  "resourcesLoop gvl apiGroup [] st = st"
| "resourcesLoop gvl apiGroup (resource # resources) (rule, rolePolicyRules, clusterRolePolicyRules) =
     (case discoveryLoop apiGroup resource gvl of
        Some apires \<Rightarrow>
          (let rule' = rule\<lparr>pr_resources := [resource]\<rparr>
           in if ar_namespaced apires then
                resourcesLoop gvl apiGroup resources
                  (rule', rolePolicyRules @ [rule'], clusterRolePolicyRules)
              else
                resourcesLoop gvl apiGroup resources
                  (rule', rolePolicyRules, clusterRolePolicyRules @ [rule']))
      | None \<Rightarrow>
          resourcesLoop gvl apiGroup resources
            (rule, rolePolicyRules, clusterRolePolicyRules @ [rule]))"

text \<open>
  The loop over the API groups of the rule: each round starts the loop over
  \<open>rule.Resources\<close> as the rounds before have left it.
\<close>

fun apiGroupsLoop ::
  "discovery \<Rightarrow> string list \<Rightarrow> policyRule \<times> policyRule list \<times> policyRule list \<Rightarrow>
   policyRule \<times> policyRule list \<times> policyRule list" where
  "apiGroupsLoop gvl [] st = st"
| "apiGroupsLoop gvl (apiGroup # apiGroups) (rule, rolePolicyRules, clusterRolePolicyRules) =
     apiGroupsLoop gvl apiGroups
       (resourcesLoop gvl apiGroup (pr_resources rule)
          (rule, rolePolicyRules, clusterRolePolicyRules))"

fun rulesLoop ::
  "discovery \<Rightarrow> policyRule list \<Rightarrow> policyRule list \<times> policyRule list \<Rightarrow>
   policyRule list \<times> policyRule list" where
  "rulesLoop gvl [] st = st"
| "rulesLoop gvl (rule # rules) (rolePolicyRules, clusterRolePolicyRules) =
     (case apiGroupsLoop gvl (pr_apiGroups rule) (rule, rolePolicyRules, clusterRolePolicyRules) of
        (_, rolePolicyRules', clusterRolePolicyRules') \<Rightarrow>
          rulesLoop gvl rules (rolePolicyRules', clusterRolePolicyRules'))"

text \<open>The result is \<open>(rolePolicyRules, clusterRolePolicyRules)\<close>.\<close>

definition processClusterRole ::
  "clusterRole \<Rightarrow> discovery \<Rightarrow> policyRule list \<times> policyRule list" where
  "processClusterRole generated gvl = rulesLoop gvl (cr_rules generated) ([], [])"

section \<open>controller/controlplane: the owned resources\<close>

text \<open>
  In each function below, \<open>listed\<close> is what the listing of the owned objects
  returns, \<open>cl\<close> what the cluster answers to the changes, and \<open>metaUpd\<close> is
  \<open>k8sutils.EnsureObjectMetaIsUpdated\<close>. The result is the tuple the function
  returns, paired with the calls it has made that change the cluster.
\<close>

type_synonym metaUpdater = "objectMeta \<Rightarrow> objectMeta \<Rightarrow> bool \<times> objectMeta"

definition numReplicasWhenNoDataPlane :: "32 word" where
  "numReplicasWhenNoDataPlane = 0"

subsection \<open>ensureDeployment\<close>

text \<open>
  \<open>ensureDeploymentParams\<close>, and what \<open>ensureDeployment\<close> calls outside itself:
  \<open>controlplane.GenerateImage\<close> (told whether the version of the image is validated),
  \<open>k8sresources.GenerateNewDeploymentForControlPlane\<close> (of the image),
  \<open>k8sresources.SpecHashMatchesAnnotation\<close> (of the existing Deployment) and
  \<open>cmp.Equal\<close> on two pod templates with the comparer for resource requirements.
\<close>

record ensureDeploymentParams =
  p_controlPlane :: controlPlane
  p_enforceConfig :: bool

record 't deploymentEnv =
  de_validateControlPlaneImage :: bool
  de_generateImage :: "bool \<Rightarrow> error + string"
  de_generateDeployment :: "string \<Rightarrow> error + 't deployment"
  de_specHashMatchesAnnotation :: "'t deployment \<Rightarrow> error + bool"
  de_templateEqual :: "'t \<Rightarrow> 't \<Rightarrow> bool"

text \<open>
  The function returns a tuple itself, or what \<open>patch.ApplyPatchIfNotEmpty\<close> returns
  for the Deployment as modified, the copy taken before and the flag \<open>updated\<close>.
\<close>

datatype 't deploymentReturn =
    Return opResult "'t deployment option" "error option"
  | ApplyPatchIfNotEmpty "'t deployment" "'t deployment" bool

text \<open>The \<open>switch\<close> on the replicas: the replicas of the Deployment and \<open>updated\<close>.\<close>

definition replicasSwitch ::
  "bool \<Rightarrow> 32 word option \<Rightarrow> 32 word option \<Rightarrow> bool \<Rightarrow> 32 word option \<times> bool" where
  "replicasSwitch dataplaneIsSet replicas existingReplicas updated =
     (if \<not> dataplaneIsSet \<and>
         (case replicas of None \<Rightarrow> True | Some n \<Rightarrow> n \<noteq> numReplicasWhenNoDataPlane) then
        (if existingReplicas \<noteq> Some numReplicasWhenNoDataPlane then
           (Some numReplicasWhenNoDataPlane, True)
         else (existingReplicas, updated))
      else if dataplaneIsSet \<and>
         (case replicas of None \<Rightarrow> False | Some n \<Rightarrow> n \<noteq> numReplicasWhenNoDataPlane) then
        (if existingReplicas \<noteq> replicas then (replicas, True)
         else (existingReplicas, updated))
      else (existingReplicas, updated))"

definition ensureDeployment ::
  "clientEnv \<Rightarrow> metaUpdater \<Rightarrow> 't deploymentEnv \<Rightarrow> (error + 't deployment list) \<Rightarrow>
   ensureDeploymentParams \<Rightarrow> 't deploymentReturn \<times> clientCall list" where
  "ensureDeployment cl metaUpd env listed params =
     (let dataplaneIsSet =
            (case cp_dataPlane (p_controlPlane params) of None \<Rightarrow> False | Some dp \<Rightarrow> dp \<noteq> [])
      in case listed of
           Inl err \<Rightarrow> (Return Noop None (Some err), [])
         | Inr deployments \<Rightarrow>
             (let count = length deployments in
              if count > 1 then
                (case reduceErr cl of
                   Some err \<Rightarrow> (Return Noop None (Some err), [ReduceDeployments])
                 | None \<Rightarrow>
                     (Return Noop None (Some (ErrorsNew ''number of deployments reduced'')),
                      [ReduceDeployments]))
              else
                (case de_generateImage env (de_validateControlPlaneImage env) of
                   Inl err \<Rightarrow> (Return Noop None (Some err), [])
                 | Inr controlplaneImage \<Rightarrow>
                     (case de_generateDeployment env controlplaneImage of
                        Inl err \<Rightarrow> (Return Noop None (Some err), [])
                      | Inr generatedDeployment \<Rightarrow>
                          (case deployments of
                             existingDeployment # _ \<Rightarrow>
                               (case (if \<not> p_enforceConfig params
                                      then de_specHashMatchesAnnotation env existingDeployment
                                      else Inr False) of
                                  Inl err \<Rightarrow> (Return Noop None (Some err), [])
                                | Inr True \<Rightarrow> (Return Noop (Some existingDeployment) None, [])
                                | Inr False \<Rightarrow>
                                    (let oldExistingDeployment = existingDeployment;
                                         (updated, meta) =
                                           metaUpd (d_meta existingDeployment) (d_meta generatedDeployment);
                                         existing1 = existingDeployment\<lparr>d_meta := meta\<rparr>;
                                         (existing2, updated2) =
                                           (if \<not> de_templateEqual env (d_template existing1)
                                                   (d_template generatedDeployment)
                                            then (existing1\<lparr>d_template := d_template generatedDeployment\<rparr>, True)
                                            else (existing1, updated));
                                         replicas = cp_replicas (p_controlPlane params);
                                         (newReplicas, updated3) =
                                           replicasSwitch dataplaneIsSet replicas (d_replicas existing2) updated2;
                                         existing3 = existing2\<lparr>d_replicas := newReplicas\<rparr>
                                     in (ApplyPatchIfNotEmpty existing3 oldExistingDeployment updated3, [])))
                           | [] \<Rightarrow>
                               (let generated =
                                      (if \<not> dataplaneIsSet
                                       then generatedDeployment\<lparr>d_replicas := Some numReplicasWhenNoDataPlane\<rparr>
                                       else generatedDeployment)
                                in case createErr cl of
                                     Some err \<Rightarrow>
                                       (Return Noop None
                                          (Some (Errorf ''failed creating ControlPlane Deployment %s: %w''
                                             [om_name (d_meta generated)] (Some err))),
                                        [ClientCreate])
                                   | None \<Rightarrow> (Return Created (Some generated) None, [ClientCreate])))))))"

subsection \<open>ensureServiceAccount\<close>

definition ensureServiceAccount ::
  "clientEnv \<Rightarrow> metaUpdater \<Rightarrow> (error + serviceAccount list) \<Rightarrow> serviceAccount \<Rightarrow>
   (bool \<times> serviceAccount option \<times> error option) \<times> clientCall list" where
  "ensureServiceAccount cl metaUpd listed generatedServiceAccount =
     (case listed of
        Inl err \<Rightarrow> ((False, None, Some err), [])
      | Inr serviceAccounts \<Rightarrow>
          (let count = length serviceAccounts in
           if count > 1 then
             (case reduceErr cl of
                Some err \<Rightarrow> ((False, None, Some err), [ReduceServiceAccounts])
              | None \<Rightarrow>
                  ((False, None, Some (ErrorsNew ''number of serviceAccounts reduced'')),
                   [ReduceServiceAccounts]))
           else
             (case serviceAccounts of
                existingServiceAccount # _ \<Rightarrow>
                  (let (updated, meta) =
                         metaUpd (sa_meta existingServiceAccount) (sa_meta generatedServiceAccount);
                       existing = existingServiceAccount\<lparr>sa_meta := meta\<rparr>
                   in if updated then
                        (case updateErr cl of
                           Some err \<Rightarrow>
                             ((False, Some existing,
                               Some (Errorf ''failed updating ControlPlane's ServiceAccount %s: %w''
                                 [om_name (sa_meta existing)] (Some err))),
                              [ClientUpdate])
                         | None \<Rightarrow> ((True, Some existing, None), [ClientUpdate]))
                      else ((False, Some existing, None), []))
              | [] \<Rightarrow> ((True, Some generatedServiceAccount, createErr cl), [ClientCreate]))))"

subsection \<open>ensureClusterRole\<close>

definition ensureClusterRole ::
  "clientEnv \<Rightarrow> metaUpdater \<Rightarrow> (error + clusterRole list) \<Rightarrow> clusterRole \<Rightarrow>
   (bool \<times> clusterRole option \<times> error option) \<times> clientCall list" where
  "ensureClusterRole cl metaUpd listed generatedClusterRole =
     (case listed of
        Inl err \<Rightarrow> ((False, None, Some err), [])
      | Inr clusterRoles \<Rightarrow>
          (let count = length clusterRoles in
           if count > 1 then
             (case reduceErr cl of
                Some err \<Rightarrow> ((False, None, Some err), [ReduceClusterRoles])
              | None \<Rightarrow>
                  ((False, None, Some (ErrorsNew ''number of clusterRoles reduced'')),
                   [ReduceClusterRoles]))
           else
             (case clusterRoles of
                existing0 # _ \<Rightarrow>
                  (let (updated, meta) = metaUpd (cr_meta existing0) (cr_meta generatedClusterRole);
                       existing = existing0\<lparr>cr_meta := meta\<rparr>
                   in if updated \<or> cr_rules existing \<noteq> cr_rules generatedClusterRole \<or>
                         cr_aggregationRule existing \<noteq> cr_aggregationRule generatedClusterRole then
                        (let existing' = existing
                               \<lparr>cr_rules := cr_rules generatedClusterRole,
                                cr_aggregationRule := cr_aggregationRule generatedClusterRole\<rparr>
                         in case patchErr cl of
                              Some err \<Rightarrow>
                                ((False, Some existing',
                                  Some (Errorf ''failed patching ControlPlane's ClusterRole %s: %w''
                                    [om_name (cr_meta existing')] (Some err))),
                                 [ClientPatch])
                            | None \<Rightarrow> ((True, Some existing', None), [ClientPatch]))
                      else ((False, Some existing, None), []))
              | [] \<Rightarrow> ((True, Some generatedClusterRole, createErr cl), [ClientCreate]))))"

subsection \<open>ensureRoleBinding and ensureClusterRoleBinding\<close>

text \<open>
  \<open>compareRoleName\<close> is \<open>k8sresources.CompareRoleName\<close> (for a cluster role binding
  \<open>CompareClusterRoleName\<close>), \<open>containsServiceAccount\<close> is
  \<open>k8sresources.RoleBindingContainsServiceAccount\<close> (or its cluster counterpart) for the
  namespace of the control plane and the name of the service account.
\<close>

definition ensureRoleBinding ::
  "clientEnv \<Rightarrow> metaUpdater \<Rightarrow> (binding \<Rightarrow> string \<Rightarrow> bool) \<Rightarrow> (binding \<Rightarrow> bool) \<Rightarrow>
   (error + binding list) \<Rightarrow> binding \<Rightarrow> string \<Rightarrow>
   (opResult \<times> binding option \<times> error option) \<times> clientCall list" where
  "ensureRoleBinding cl metaUpd compareRoleName containsServiceAccount listed generated roleName =
     (case listed of
        Inl err \<Rightarrow> ((Noop, None, Some err), [])
      | Inr roleBindings \<Rightarrow>
          (let count = length roleBindings in
           if count > 1 then
             (case reduceErr cl of
                Some err \<Rightarrow> ((Noop, None, Some err), [ReduceRoleBindings])
              | None \<Rightarrow>
                  ((Noop, None, Some (ErrorsNew ''number of roleBindings reduced'')),
                   [ReduceRoleBindings]))
           else
             (case roleBindings of
                existing0 # _ \<Rightarrow>
                  (if \<not> compareRoleName existing0 roleName then
                     (case deleteErr cl of
                        Some err \<Rightarrow> ((Noop, None, Some err), [ClientDelete])
                      | None \<Rightarrow>
                          ((Noop, None,
                            Some (ErrorsNew ''name of Role changed, out of date RoleBinding deleted'')),
                           [ClientDelete]))
                   else
                     (let (updated, meta) = metaUpd (b_meta existing0) (b_meta generated);
                          existing1 = existing0\<lparr>b_meta := meta\<rparr>;
                          (existing, updatedServiceAccount) =
                            (if \<not> containsServiceAccount existing1
                             then (existing1\<lparr>b_subjects := b_subjects generated\<rparr>, True)
                             else (existing1, False))
                      in if updated \<or> updatedServiceAccount then
                           (case patchErr cl of
                              Some err \<Rightarrow>
                                ((Noop, Some existing,
                                  Some (Errorf ''failed patching ControlPlane's RoleBinding %s: %w''
                                    [om_name (b_meta existing)] (Some err))),
                                 [ClientPatch])
                            | None \<Rightarrow> ((Updated, Some existing, None), [ClientPatch]))
                         else ((Noop, Some existing, None), [])))
              | [] \<Rightarrow> ((Created, Some generated, createErr cl), [ClientCreate]))))"

definition ensureClusterRoleBinding ::
  "clientEnv \<Rightarrow> metaUpdater \<Rightarrow> (binding \<Rightarrow> string \<Rightarrow> bool) \<Rightarrow> (binding \<Rightarrow> bool) \<Rightarrow>
   (error + binding list) \<Rightarrow> binding \<Rightarrow> string \<Rightarrow>
   (bool \<times> binding option \<times> error option) \<times> clientCall list" where
  "ensureClusterRoleBinding cl metaUpd compareClusterRoleName containsServiceAccount listed generated
     clusterRoleName =
     (case listed of
        Inl err \<Rightarrow> ((False, None, Some err), [])
      | Inr clusterRoleBindings \<Rightarrow>
          (let count = length clusterRoleBindings in
           if count > 1 then
             (case reduceErr cl of
                Some err \<Rightarrow> ((False, None, Some err), [ReduceClusterRoleBindings])
              | None \<Rightarrow>
                  ((False, None, Some (ErrorsNew ''number of clusterRoleBindings reduced'')),
                   [ReduceClusterRoleBindings]))
           else
             (case clusterRoleBindings of
                existing0 # _ \<Rightarrow>
                  (if \<not> compareClusterRoleName existing0 clusterRoleName then
                     (case deleteErr cl of
                        Some err \<Rightarrow> ((False, None, Some err), [ClientDelete])
                      | None \<Rightarrow>
                          ((False, None,
                            Some (ErrorsNew
                              ''name of ClusterRole changed, out of date ClusterRoleBinding deleted'')),
                           [ClientDelete]))
                   else
                     (let (updated, meta) = metaUpd (b_meta existing0) (b_meta generated);
                          existing1 = existing0\<lparr>b_meta := meta\<rparr>;
                          (existing, updatedServiceAccount) =
                            (if \<not> containsServiceAccount existing1
                             then (existing1\<lparr>b_subjects := b_subjects generated\<rparr>, True)
                             else (existing1, False))
                      in if updated \<or> updatedServiceAccount then
                           (case patchErr cl of
                              Some err \<Rightarrow>
                                ((False, Some existing,
                                  Some (Errorf ''failed patching ControlPlane's ClusterRoleBinding %s: %w''
                                    [om_name (b_meta existing)] (Some err))),
                                 [ClientPatch])
                            | None \<Rightarrow> ((True, Some existing, None), [ClientPatch]))
                         else ((False, Some existing, None), [])))
              | [] \<Rightarrow> ((True, Some generated, createErr cl), [ClientCreate]))))"

subsection \<open>ensureAdmissionWebhookService\<close>

text \<open>
  \<open>admissionWebhookEnabled\<close> is what \<open>isAdmissionWebhookEnabled\<close> answers for the
  control plane, \<open>generated\<close> what
  \<open>k8sresources.GenerateNewAdmissionWebhookServiceForControlPlane\<close> returns.
\<close>

definition ensureAdmissionWebhookService ::
  "clientEnv \<Rightarrow> metaUpdater \<Rightarrow> controlPlane \<Rightarrow> bool \<Rightarrow> (error + service list) \<Rightarrow>
   (error + service) \<Rightarrow> (opResult \<times> service option \<times> error option) \<times> clientCall list" where
  "ensureAdmissionWebhookService cl metaUpd cp admissionWebhookEnabled listed generated =
     (case listed of
        Inl err \<Rightarrow>
          ((Noop, None,
            Some (Errorf ''failed listing admission webhook Services for ControlPlane %s/%s: %w''
              [cp_namespace cp, cp_name cp] (Some err))), [])
      | Inr services \<Rightarrow>
          (if \<not> admissionWebhookEnabled then
             (if length services = 0 then ((Noop, None, None), [])
              else (case deleteAllErr cl of
                      Some err \<Rightarrow>
                        ((Noop, None,
                          Some (Errorf ''failed deleting ControlPlane admission webhook Service: %w''
                            [] (Some err))), [ClientDeleteAll])
                    | None \<Rightarrow> ((Deleted, None, None), [ClientDeleteAll])))
           else
             (let count = length services in
              if count > 1 then
                (case reduceErr cl of
                   Some err \<Rightarrow> ((Noop, None, Some err), [ReduceServices])
                 | None \<Rightarrow>
                     ((Noop, None,
                       Some (ErrorsNew ''number of ControlPlane admission webhook Services reduced'')),
                      [ReduceServices]))
              else
                (case generated of
                   Inl err \<Rightarrow> ((Noop, None, Some err), [])
                 | Inr generatedService \<Rightarrow>
                     (case services of
                        existing0 # _ \<Rightarrow>
                          (let (updated, meta) = metaUpd (svc_meta existing0) (svc_meta generatedService);
                               existing1 = existing0\<lparr>svc_meta := meta\<rparr>;
                               (existing2, updated2) =
                                 (if svc_selector existing1 \<noteq> svc_selector generatedService
                                  then (existing1\<lparr>svc_selector := svc_selector generatedService\<rparr>, True)
                                  else (existing1, updated));
                               (existingService, updated3) =
                                 (if svc_ports existing2 \<noteq> svc_ports generatedService
                                  then (existing2\<lparr>svc_ports := svc_ports generatedService\<rparr>, True)
                                  else (existing2, updated2))
                           in if updated3 then
                                (case updateErr cl of
                                   Some err \<Rightarrow>
                                     ((Noop, Some existingService,
                                       Some (Errorf
                                         ''failed updating ControlPlane admission webhook Service %s: %w''
                                         [om_name (svc_meta existingService)] (Some err))),
                                      [ClientUpdate])
                                 | None \<Rightarrow> ((Updated, Some existingService, None), [ClientUpdate]))
                              else ((Noop, Some existingService, None), []))
                      | [] \<Rightarrow>
                          (case createErr cl of
                             Some err \<Rightarrow>
                               ((Noop, None,
                                 Some (Errorf ''failed creating ControlPlane admission webhook Service: %w''
                                   [] (Some err))), [ClientCreate])
                           | None \<Rightarrow> ((Created, Some generatedService, None), [ClientCreate])))))))"

section \<open>Notions the properties are stated with\<close>

text \<open>The elements of a slice: the nil slice has none.\<close>

definition sliceList :: "'a slice \<Rightarrow> 'a list" where
  "sliceList s = (case s of None \<Rightarrow> [] | Some xs \<Rightarrow> xs)"

text \<open>
  A namespace has a grant for the control plane when the listing of its
  \<open>WatchNamespaceGrant\<close>s succeeds and one of them has a \<open>from\<close> entry with the group
  of the operator, the kind \<open>ControlPlane\<close> and the namespace of the control plane.
\<close>

definition hasGrant :: "grantLister \<Rightarrow> controlPlane \<Rightarrow> string \<Rightarrow> bool" where
  "hasGrant cl cp ns =
     (case cl ns of
        Inl err \<Rightarrow> False
      | Inr grants \<Rightarrow> list_ex (\<lambda>g. list_ex (fromMatches cp) (wng_from g)) grants)"

text \<open>An error names a namespace when the namespace is one of its formatted arguments.\<close>

definition errorNames :: "error \<Rightarrow> string \<Rightarrow> bool" where
  "errorNames e ns = (case e of Errorf f args w \<Rightarrow> ns \<in> set args | _ \<Rightarrow> False)"

text \<open>
  A dependent has the extension applied when one of its conditions has the type
  \<open>KonnectExtensionApplied\<close> and the status \<open>True\<close>; \<open>refOf\<close> is the reference to a
  dependent, \<open>keyOf\<close> its \<open>namespace/name\<close>.
\<close>

definition extensionApplied :: "extendable \<Rightarrow> bool" where
  "extensionApplied d =
     (\<exists>c \<in> set (ext_conditions d).
        cond_type c = ''KonnectExtensionApplied'' \<and> cond_status c = ConditionTrue)"

definition refOf :: "extendable \<Rightarrow> namespacedRef" where
  "refOf d = \<lparr>ref_name = ext_name d, ref_namespace = Some (ext_namespace d)\<rparr>"

definition keyOf :: "extendable \<Rightarrow> string" where
  "keyOf d = ext_namespace d @ ''/'' @ ext_name d"

text \<open>
  A list of references is sorted by \<open>namespace/name\<close> when every reference has a
  namespace and the strings \<open>namespace/name\<close> are in ascending order.
\<close>

definition sortedByNamespaceName :: "namespacedRef list \<Rightarrow> bool" where
  "sortedByNamespaceName refs =
     (case those (map refToStr refs) of None \<Rightarrow> False | Some keys \<Rightarrow> sorted keys)"

section \<open>Concrete inputs\<close>

definition exampleControlPlane :: "watchNamespacesType \<Rightarrow> string list \<Rightarrow> controlPlane" where
  "exampleControlPlane t nss =
     \<lparr>cp_name = ''kong'', cp_namespace = ''kong-system'', cp_dataPlane = None,
      cp_replicas = None, cp_watchNamespaces = Some \<lparr>wn_type = t, wn_list = nss\<rparr>\<rparr>"

definition exampleGrant :: watchNamespaceGrant where
  "exampleGrant =
     \<lparr>wng_from = [\<lparr>from_group = ''gateway-operator.konghq.com'', from_kind = ''ControlPlane'',
                   from_namespace = ''kong-system''\<rparr>]\<rparr>"

text \<open>A cluster with a grant in namespace \<open>a\<close> only, and one with grants in \<open>a\<close> and \<open>b\<close>.\<close>

definition grantsInA :: grantLister where
  "grantsInA ns = (if ns = ''a'' then Inr [exampleGrant] else Inr [])"

definition grantsInAB :: grantLister where
  "grantsInAB ns = (if ns = ''a'' \<or> ns = ''b'' then Inr [exampleGrant] else Inr [])"

definition appliedTrue :: condition where
  "appliedTrue =
     \<lparr>cond_type = ''KonnectExtensionApplied'', cond_status = ConditionTrue,
      cond_reason = [], cond_message = []\<rparr>"

definition appliedFalse :: condition where
  "appliedFalse =
     \<lparr>cond_type = ''KonnectExtensionApplied'', cond_status = ConditionFalse,
      cond_reason = [], cond_message = []\<rparr>"

text \<open>Two dependents: \<open>d1\<close> has the extension applied, \<open>d2\<close> has not.\<close>

definition exampleDependents :: "extendable list" where
  "exampleDependents =
     [\<lparr>ext_name = ''d2'', ext_namespace = ''default'', ext_conditions = [appliedFalse]\<rparr>,
      \<lparr>ext_name = ''d1'', ext_namespace = ''default'', ext_conditions = [appliedTrue]\<rparr>]"

definition emptyStatus :: "unit konnectExtensionStatus" where
  "emptyStatus = \<lparr>st_dataPlaneRefs = None, st_controlPlaneRefs = None, st_other = ()\<rparr>"

definition statusWithD1 :: "unit konnectExtensionStatus" where
  "statusWithD1 =
     \<lparr>st_dataPlaneRefs = Some [\<lparr>ref_name = ''d1'', ref_namespace = Some ''default''\<rparr>],
      st_controlPlaneRefs = None, st_other = ()\<rparr>"

definition conflictError :: apiError where
  "conflictError = \<lparr>ae_reason = StatusReasonConflict, ae_message = ''the object has been modified''\<rparr>"

definition serverError :: apiError where
  "serverError = \<lparr>ae_reason = StatusReasonOther, ae_message = ''internal error''\<rparr>"

definition notFoundError :: apiError where
  "notFoundError = \<lparr>ae_reason = StatusReasonNotFound, ae_message = ''not found''\<rparr>"

text \<open>
  A control plane built on the resource \<open>cp1\<close> of its namespace; the client finds
  that resource and no other, and answers the status patch as given.
\<close>

definition unprogrammedControlPlane :: konnectGatewayControlPlane where
  "unprogrammedControlPlane =
     \<lparr>kgcp_name = ''cp1'', kgcp_namespace = ''default'',
      kgcp_conditions =
        [\<lparr>cond_type = ''Programmed'', cond_status = ConditionFalse,
          cond_reason = ''Pending'', cond_message = []\<rparr>]\<rparr>"

definition exampleHasConditionTrue :: "string \<Rightarrow> konnectGatewayControlPlane \<Rightarrow> bool" where
  "exampleHasConditionTrue t kgcp =
     list_ex (\<lambda>c. cond_type c = t \<and> cond_status c = ConditionTrue) (kgcp_conditions kgcp)"

definition exampleKonnectClient :: "ctrlResult \<times> error option \<Rightarrow> konnectClient" where
  "exampleKonnectClient patched =
     \<lparr>kc_get = (\<lambda>ns name. if ns = ''default'' \<and> name = ''cp1''
                           then Inr unprogrammedControlPlane else Inl notFoundError),
      kc_list = (\<lambda>ns konnectID. Inr []),
      kc_statusWithConditions = (\<lambda>conds. patched),
      kc_hasConditionTrue = exampleHasConditionTrue,
      kc_newNotFound = (\<lambda>resource name.
        \<lparr>ae_reason = StatusReasonNotFound, ae_message = resource @ '' '' @ name @ '' not found''\<rparr>)\<rparr>"

definition exampleExtension :: "string \<Rightarrow> konnectExtension" where
  "exampleExtension name =
     \<lparr>ke_namespace = ''default'', ke_ref = ControlPlaneRefKonnectNamespacedRef name\<rparr>"

definition requeueResult :: ctrlResult where
  "requeueResult = \<lparr>res_requeue = True, res_requeueAfter = 0\<rparr>"

text \<open>
  The reference of the extension resolves to a \<open>KonnectGatewayControlPlane\<close> when the
  client's \<open>Get\<close> returns it (a namespaced reference) or it is the first one the
  client's \<open>List\<close> returns (a Konnect ID); it is not found, with an error, when the
  \<open>Get\<close> fails with that error and the error is a not-found one, or the \<open>List\<close> is
  empty and the error is the not-found error the function builds.
\<close>

definition resolvesTo ::
  "konnectClient \<Rightarrow> konnectExtension \<Rightarrow> konnectGatewayControlPlane \<Rightarrow> bool" where
  "resolvesTo r ext kgcp =
     (case ke_ref ext of
        ControlPlaneRefKonnectNamespacedRef name \<Rightarrow> kc_get r (ke_namespace ext) name = Inr kgcp
      | ControlPlaneRefKonnectID konnectID \<Rightarrow>
          (case kc_list r (ke_namespace ext) konnectID of
             Inr (first # others) \<Rightarrow> first = kgcp
           | _ \<Rightarrow> False)
      | ControlPlaneRefOther \<Rightarrow> False)"

definition notFoundWith :: "konnectClient \<Rightarrow> konnectExtension \<Rightarrow> apiError \<Rightarrow> bool" where
  "notFoundWith r ext e =
     (case ke_ref ext of
        ControlPlaneRefKonnectNamespacedRef name \<Rightarrow>
          kc_get r (ke_namespace ext) name = Inl e \<and> ae_reason e = StatusReasonNotFound
      | ControlPlaneRefKonnectID konnectID \<Rightarrow>
          kc_list r (ke_namespace ext) konnectID = Inr [] \<and>
          e = kc_newNotFound r ''KonnectGatewayControlPlane''
                (''with KonnectID '' @ konnectID @ '' in namespace '' @ ke_namespace ext)
      | ControlPlaneRefOther \<Rightarrow> False)"

text \<open>The condition \<open>ControlPlaneRefValid\<close> with status \<open>False\<close> and reason \<open>Invalid\<close>.\<close>

definition refInvalidCondition :: "string \<Rightarrow> condition" where
  "refInvalidCondition message =
     \<lparr>cond_type = ''ControlPlaneRefValid'', cond_status = ConditionFalse,
      cond_reason = ''Invalid'', cond_message = message\<rparr>"

text \<open>
  What the function returns after it has handed \<open>conds\<close> to the status patch, when
  it would return \<open>err\<close> after a patch that succeeds and asks for no requeue.
\<close>

definition afterPatch ::
  "konnectClient \<Rightarrow> condition list \<Rightarrow> error \<Rightarrow> getControlPlaneResult" where
  "afterPatch r conds err =
     (let (res, errPatch) = kc_statusWithConditions r conds
      in if errPatch = None \<and> res = zeroResult
         then \<lparr>g_cp = None, g_res = zeroResult, g_err = Some err, g_patches = [conds]\<rparr>
         else \<lparr>g_cp = None, g_res = res, g_err = errPatch, g_patches = [conds]\<rparr>)"

text \<open>Rules and a discovery mapping: \<open>configmaps\<close> is namespaced, \<open>namespaces\<close> is not.\<close>

definition exampleRule :: "string list \<Rightarrow> policyRule" where
  "exampleRule resources = \<lparr>pr_apiGroups = [''''], pr_resources = resources, pr_verbs = [''get'']\<rparr>"

definition exampleClusterRole :: "string list \<Rightarrow> clusterRole" where
  "exampleClusterRole resources =
     \<lparr>cr_meta = \<lparr>om_name = ''kong'', om_namespace = [], om_labels = [], om_annotations = []\<rparr>,
      cr_rules = [exampleRule resources], cr_aggregationRule = None\<rparr>"

definition exampleDiscovery :: discovery where
  "exampleDiscovery =
     [(\<lparr>gv_group = '''', gv_version = ''v1''\<rparr>,
       [\<lparr>ar_name = ''configmaps'', ar_group = '''', ar_namespaced = True\<rparr>,
        \<lparr>ar_name = ''namespaces'', ar_group = '''', ar_namespaced = False\<rparr>])]"

text \<open>The resources named by a list of rules.\<close>

definition resourcesOf :: "policyRule list \<Rightarrow> string set" where
  "resourcesOf rules = set (concat (map pr_resources rules))"

text \<open>
  \<open>spec.dataPlane\<close> is set when the pointer is not nil and the string is not empty.
\<close>

definition dataPlaneIsSet :: "controlPlane \<Rightarrow> bool" where
  "dataPlaneIsSet cp = (case cp_dataPlane cp of None \<Rightarrow> False | Some dp \<Rightarrow> dp \<noteq> [])"

text \<open>
  The error a function returns after it has called the reduce operation: the error of
  that operation when it failed, else the error that says the number was reduced.
\<close>

definition reducedError :: "clientEnv \<Rightarrow> string \<Rightarrow> error" where
  "reducedError cl message = (case reduceErr cl of Some err \<Rightarrow> err | None \<Rightarrow> ErrorsNew message)"

text \<open>A cluster that accepts every change, and owned objects of each kind.\<close>

definition okClient :: clientEnv where
  "okClient =
     \<lparr>reduceErr = None, createErr = None, patchErr = None, updateErr = None,
      deleteErr = None, deleteAllErr = None\<rparr>"

definition exampleMeta :: "string \<Rightarrow> objectMeta" where
  "exampleMeta name =
     \<lparr>om_name = name, om_namespace = ''kong-system'', om_labels = [], om_annotations = []\<rparr>"

definition keepMeta :: metaUpdater where
  "keepMeta existing generated = (False, existing)"

definition exampleDeployment :: "string \<Rightarrow> 32 word option \<Rightarrow> string deployment" where
  "exampleDeployment name replicas =
     \<lparr>d_meta = exampleMeta name, d_template = ''kong/kubernetes-ingress-controller:3.4'',
      d_replicas = replicas\<rparr>"

text \<open>
  The generators succeed; the stored hash of the spec matches the annotation or not, as given.
\<close>

definition exampleDeploymentEnv :: "bool \<Rightarrow> string deploymentEnv" where
  "exampleDeploymentEnv hashMatches =
     \<lparr>de_validateControlPlaneImage = False,
      de_generateImage = (\<lambda>validate. Inr ''kong/kubernetes-ingress-controller:3.4''),
      de_generateDeployment = (\<lambda>image.
        Inr \<lparr>d_meta = exampleMeta ''controlplane-kong'', d_template = image, d_replicas = Some 1\<rparr>),
      de_specHashMatchesAnnotation = (\<lambda>existing. Inr hashMatches),
      de_templateEqual = (\<lambda>a b. a = b)\<rparr>"

definition exampleParams :: "string option \<Rightarrow> 32 word option \<Rightarrow> bool \<Rightarrow> ensureDeploymentParams" where
  "exampleParams dataPlane replicas enforceConfig =
     \<lparr>p_controlPlane =
        \<lparr>cp_name = ''kong'', cp_namespace = ''kong-system'', cp_dataPlane = dataPlane,
         cp_replicas = replicas, cp_watchNamespaces = None\<rparr>,
      p_enforceConfig = enforceConfig\<rparr>"

definition exampleServiceAccount :: "string \<Rightarrow> serviceAccount" where
  "exampleServiceAccount name = \<lparr>sa_meta = exampleMeta name\<rparr>"

definition exampleBinding :: "string \<Rightarrow> binding" where
  "exampleBinding name =
     \<lparr>b_meta = exampleMeta name, b_roleRefName = ''kong'', b_subjects = []\<rparr>"

definition exampleService :: "string \<Rightarrow> service" where
  "exampleService name = \<lparr>svc_meta = exampleMeta name, svc_selector = [], svc_ports = []\<rparr>"

section \<open>Properties of sanitizeCert\<close>

lemma replaceFrom_CR: "replaceFrom 0 [CR] [] s = filter (\<lambda>c. c \<noteq> CR) s"
  by (induction s) auto

lemma filter_CR_id: "CR \<notin> set s \<Longrightarrow> filter (\<lambda>c. c \<noteq> CR) s = s"
  by (induction s) auto

lemma sanitizeCert_eq:
  "sanitizeCert cert = filter (\<lambda>c. c \<noteq> CR) (if suffix [LF] cert then butlast cert else cert)"
  by (simp add: sanitizeCert_def replaceAll_def replaceFrom_CR trimSuffix_def butlast_conv_take)

text \<open>
  Claim C10, as stated, fails: the result of \<open>sanitizeCert\<close> can end with a line feed.
  Only one trailing line feed is removed, and it is removed before the carriage returns
  are: a certificate that ends with two line feeds, or with a line feed and a carriage
  return, keeps a line feed at its end.
\<close>

theorem sanitizeCert_trailing_newline_counterexample:
  "sanitizeCert [CHR ''a'', LF, LF] = [CHR ''a'', LF] \<and>
   sanitizeCert [CHR ''a'', LF, CR] = [CHR ''a'', LF] \<and>
   suffix [LF] (sanitizeCert [CHR ''a'', LF, LF])"
  by (simp add: sanitizeCert_eq LF_def CR_def suffix_def)

text \<open>
  Claim C10, amended: \<open>sanitizeCert\<close> removes one trailing line feed, if the input ends
  with one, and then every carriage return. Its result contains no carriage return; it
  does not end with a line feed when the input has no carriage return and does not end
  with two line feeds; and an input without a carriage return that does not end with a
  line feed is returned unchanged.
\<close>

theorem sanitizeCert_amended:
  "CR \<notin> set (sanitizeCert cert) \<and>
   sanitizeCert cert = filter (\<lambda>c. c \<noteq> CR) (if suffix [LF] cert then butlast cert else cert) \<and>
   (CR \<notin> set cert \<and> \<not> suffix [LF, LF] cert \<longrightarrow> \<not> suffix [LF] (sanitizeCert cert)) \<and>
   (CR \<notin> set cert \<and> \<not> suffix [LF] cert \<longrightarrow> sanitizeCert cert = cert)"
proof (intro conjI impI)
  show "CR \<notin> set (sanitizeCert cert)" by (simp add: sanitizeCert_eq)
  show "sanitizeCert cert = filter (\<lambda>c. c \<noteq> CR) (if suffix [LF] cert then butlast cert else cert)"
    by (rule sanitizeCert_eq)
next
  assume h: "CR \<notin> set cert \<and> \<not> suffix [LF] cert"
  then show "sanitizeCert cert = cert" by (simp add: sanitizeCert_eq filter_CR_id)
next
  assume h: "CR \<notin> set cert \<and> \<not> suffix [LF, LF] cert"
  show "\<not> suffix [LF] (sanitizeCert cert)"
  proof (cases "suffix [LF] cert")
    case False
    then show ?thesis using h by (simp add: sanitizeCert_eq filter_CR_id)
  next
    case True
    then obtain t where cert: "cert = t @ [LF]" by (auto simp: suffix_def)
    have "CR \<notin> set t" using h cert by simp
    moreover have "\<not> suffix [LF] t" using h cert by (auto simp: suffix_def)
    ultimately show ?thesis using cert by (simp add: sanitizeCert_eq filter_CR_id)
  qed
qed

theorem sanitizeCert_amended_witness:
  "CR \<notin> set [CHR ''a'', CHR ''b'', LF] \<and> \<not> suffix [LF, LF] [CHR ''a'', CHR ''b'', LF] \<and>
   \<not> suffix [LF] (sanitizeCert [CHR ''a'', CHR ''b'', LF]) \<and>
   CR \<notin> set [CHR ''a'', CHR ''b''] \<and> \<not> suffix [LF] [CHR ''a'', CHR ''b''] \<and>
   sanitizeCert [CHR ''a'', CHR ''b''] = [CHR ''a'', CHR ''b''] \<and>
   sanitizeCert [CHR ''a'', CR, LF, CHR ''b'', CR, LF] = [CHR ''a'', LF, CHR ''b'']"
  using sanitizeCert_amended [of "[CHR ''a'', CHR ''b'', LF]"]
    sanitizeCert_amended [of "[CHR ''a'', CHR ''b'']"]
    sanitizeCert_amended [of "[CHR ''a'', CR, LF, CHR ''b'', CR, LF]"]
  by (simp add: LF_def CR_def suffix_def)

section \<open>Properties of validateWatchNamespaceGrants\<close>

lemma grantsLoop_None:
  "grantsLoop cp ns grants = None \<longleftrightarrow> list_ex (\<lambda>g. list_ex (fromMatches cp) (wng_from g)) grants"
  by (induction grants) auto

lemma grantsLoop_Some:
  "grantsLoop cp ns grants = Some e \<Longrightarrow>
   e = Errorf ''WatchNamespaceGrant in Namespace %s to ControlPlane in Namespace %s not found''
         [ns, cp_namespace cp] None"
  by (induction grants) (auto split: if_splits)

lemma ensure_None_iff:
  "ensureWatchNamespaceGrantsForNamespace cl cp ns = None \<longleftrightarrow> hasGrant cl cp ns"
  by (simp add: ensureWatchNamespaceGrantsForNamespace_def hasGrant_def grantsLoop_None
      split: sum.splits)

lemma ensure_Some_names:
  "ensureWatchNamespaceGrantsForNamespace cl cp ns = Some e \<Longrightarrow> errorNames e ns"
  by (auto simp: ensureWatchNamespaceGrantsForNamespace_def errorNames_def
      split: sum.splits dest: grantsLoop_Some)

lemma ensure_Some_missing:
  "ensureWatchNamespaceGrantsForNamespace cl cp ns = Some e \<Longrightarrow> cl ns = Inr grants \<Longrightarrow>
   e = Errorf ''WatchNamespaceGrant in Namespace %s to ControlPlane in Namespace %s not found''
         [ns, cp_namespace cp] None"
  by (auto simp: ensureWatchNamespaceGrantsForNamespace_def dest: grantsLoop_Some)

lemma watchListLoop_all:
  "list_all (hasGrant cl cp) nss \<Longrightarrow>
   watchListLoop cl cp nsList lookups nss = (nsList @ nss @ [cp_namespace cp], None, lookups @ nss)"
  by (induction nss arbitrary: nsList lookups) (auto simp: ensure_None_iff split: option.splits)

lemma watchListLoop_first:
  "list_all (hasGrant cl cp) pre \<Longrightarrow> \<not> hasGrant cl cp ns \<Longrightarrow>
   watchListLoop cl cp nsList lookups (pre @ ns # post) =
     (nsList @ pre, ensureWatchNamespaceGrantsForNamespace cl cp ns, lookups @ pre @ [ns])"
proof (induction pre arbitrary: nsList lookups)
  case Nil
  then show ?case by (auto simp: ensure_None_iff split: option.splits)
next
  case (Cons a pre)
  then show ?case by (auto simp: ensure_None_iff split: option.splits)
qed

lemma first_failing:
  "\<not> list_all P xs \<Longrightarrow> \<exists>pre x post. xs = pre @ x # post \<and> list_all P pre \<and> \<not> P x"
proof (induction xs)
  case Nil
  then show ?case by simp
next
  case (Cons a xs)
  show ?case
  proof (cases "P a")
    case False
    then have "a # xs = [] @ a # xs \<and> list_all P [] \<and> \<not> P a" by simp
    then show ?thesis by blast
  next
    case True
    with Cons obtain pre x post where "xs = pre @ x # post" "list_all P pre" "\<not> P x" by auto
    with True have "a # xs = (a # pre) @ x # post \<and> list_all P (a # pre) \<and> \<not> P x" by simp
    then show ?thesis by blast
  qed
qed

text \<open>
  Claim C5: with the watch mode \<open>All\<close>, \<open>validateWatchNamespaceGrants\<close> returns no
  namespace and no error, whatever grants the cluster holds; with \<open>Own\<close> it returns
  the namespace of the control plane alone, without asking the cluster for any grant;
  with \<open>List\<close> and a grant in every listed namespace it returns the listed namespaces
  followed by the namespace of the control plane. The third component of the result
  is the list of namespaces whose grants were looked up.
\<close>

theorem validateWatchNamespaceGrants_modes:
  assumes "cp_watchNamespaces cp = Some wn"
  shows "(wn_type wn = WatchNamespacesTypeAll \<longrightarrow>
            validateWatchNamespaceGrants cl cp = ([], None, [])) \<and>
         (wn_type wn = WatchNamespacesTypeOwn \<longrightarrow>
            validateWatchNamespaceGrants cl cp = ([cp_namespace cp], None, [])) \<and>
         (wn_type wn = WatchNamespacesTypeList \<and> list_all (hasGrant cl cp) (wn_list wn) \<longrightarrow>
            validateWatchNamespaceGrants cl cp =
              (wn_list wn @ [cp_namespace cp], None, wn_list wn))"
  using assms watchListLoop_all [of cl cp "wn_list wn" "[]" "[]"]
  by (simp add: validateWatchNamespaceGrants_def)

theorem validateWatchNamespaceGrants_modes_witness:
  "validateWatchNamespaceGrants grantsInA (exampleControlPlane WatchNamespacesTypeAll [''a'', ''b'']) =
     ([], None, []) \<and>
   validateWatchNamespaceGrants grantsInA (exampleControlPlane WatchNamespacesTypeOwn []) =
     ([''kong-system''], None, []) \<and>
   list_all (hasGrant grantsInAB (exampleControlPlane WatchNamespacesTypeList [''a'', ''b'']))
     [''a'', ''b''] \<and>
   validateWatchNamespaceGrants grantsInAB (exampleControlPlane WatchNamespacesTypeList [''a'', ''b'']) =
     ([''a'', ''b'', ''kong-system''], None, [''a'', ''b''])"
proof -
  have g: "list_all (hasGrant grantsInAB (exampleControlPlane WatchNamespacesTypeList [''a'', ''b'']))
     [''a'', ''b'']"
    by (simp add: hasGrant_def grantsInAB_def exampleGrant_def fromMatches_def schemeGroup_def
        exampleControlPlane_def)
  show ?thesis
    using g
      validateWatchNamespaceGrants_modes [of "exampleControlPlane WatchNamespacesTypeAll [''a'', ''b'']"
        "\<lparr>wn_type = WatchNamespacesTypeAll, wn_list = [''a'', ''b'']\<rparr>" grantsInA]
      validateWatchNamespaceGrants_modes [of "exampleControlPlane WatchNamespacesTypeOwn []"
        "\<lparr>wn_type = WatchNamespacesTypeOwn, wn_list = []\<rparr>" grantsInA]
      validateWatchNamespaceGrants_modes [of "exampleControlPlane WatchNamespacesTypeList [''a'', ''b'']"
        "\<lparr>wn_type = WatchNamespacesTypeList, wn_list = [''a'', ''b'']\<rparr>" grantsInAB]
    by (simp add: exampleControlPlane_def)
qed

text \<open>
  Claim C6: in the watch mode \<open>List\<close>, when some listed namespace has no grant for the
  control plane, \<open>validateWatchNamespaceGrants\<close> fails with an error that names the
  first such namespace of the list, after it has accepted the namespaces before it;
  when the listing of the grants of that namespace succeeded, the error is the one
  that says the grant was not found there. When every listed namespace has a grant,
  no error is returned.
\<close>

theorem validateWatchNamespaceGrants_list:
  assumes "cp_watchNamespaces cp = Some wn" and "wn_type wn = WatchNamespacesTypeList"
  shows "(list_all (hasGrant cl cp) (wn_list wn) \<longrightarrow>
            fst (snd (validateWatchNamespaceGrants cl cp)) = None) \<and>
         (\<not> list_all (hasGrant cl cp) (wn_list wn) \<longrightarrow>
            (\<exists>pre ns post e. wn_list wn = pre @ ns # post \<and> list_all (hasGrant cl cp) pre \<and>
               \<not> hasGrant cl cp ns \<and>
               validateWatchNamespaceGrants cl cp = (pre, Some e, pre @ [ns]) \<and>
               errorNames e ns \<and>
               (\<forall>grants. cl ns = Inr grants \<longrightarrow>
                  e = Errorf ''WatchNamespaceGrant in Namespace %s to ControlPlane in Namespace %s not found''
                        [ns, cp_namespace cp] None)))"
proof (intro conjI impI)
  assume "list_all (hasGrant cl cp) (wn_list wn)"
  then show "fst (snd (validateWatchNamespaceGrants cl cp)) = None"
    using assms watchListLoop_all [of cl cp "wn_list wn" "[]" "[]"]
    by (simp add: validateWatchNamespaceGrants_def)
next
  assume "\<not> list_all (hasGrant cl cp) (wn_list wn)"
  then obtain pre ns post where split: "wn_list wn = pre @ ns # post"
    and pre: "list_all (hasGrant cl cp) pre" and ns: "\<not> hasGrant cl cp ns"
    using first_failing by blast
  from ns obtain e where e: "ensureWatchNamespaceGrantsForNamespace cl cp ns = Some e"
    using ensure_None_iff [of cl cp ns] by (cases "ensureWatchNamespaceGrantsForNamespace cl cp ns") auto
  have "validateWatchNamespaceGrants cl cp = (pre, Some e, pre @ [ns])"
    using assms split e watchListLoop_first [OF pre ns, of "[]" "[]" post]
    by (simp add: validateWatchNamespaceGrants_def)
  moreover have "errorNames e ns" using e by (rule ensure_Some_names)
  moreover have "\<forall>grants. cl ns = Inr grants \<longrightarrow>
      e = Errorf ''WatchNamespaceGrant in Namespace %s to ControlPlane in Namespace %s not found''
            [ns, cp_namespace cp] None"
    using e ensure_Some_missing by blast
  ultimately show "\<exists>pre ns post e. wn_list wn = pre @ ns # post \<and> list_all (hasGrant cl cp) pre \<and>
               \<not> hasGrant cl cp ns \<and>
               validateWatchNamespaceGrants cl cp = (pre, Some e, pre @ [ns]) \<and>
               errorNames e ns \<and>
               (\<forall>grants. cl ns = Inr grants \<longrightarrow>
                  e = Errorf ''WatchNamespaceGrant in Namespace %s to ControlPlane in Namespace %s not found''
                        [ns, cp_namespace cp] None)"
    using split pre ns by blast
qed

theorem validateWatchNamespaceGrants_list_witness:
  "\<not> list_all (hasGrant grantsInA (exampleControlPlane WatchNamespacesTypeList [''a'', ''b'']))
       [''a'', ''b''] \<and>
   validateWatchNamespaceGrants grantsInA (exampleControlPlane WatchNamespacesTypeList [''a'', ''b'']) =
     ([''a''],
      Some (Errorf ''WatchNamespaceGrant in Namespace %s to ControlPlane in Namespace %s not found''
        [''b'', ''kong-system''] None),
      [''a'', ''b'']) \<and>
   list_all (hasGrant grantsInAB (exampleControlPlane WatchNamespacesTypeList [''a'', ''b'']))
     [''a'', ''b''] \<and>
   fst (snd (validateWatchNamespaceGrants grantsInAB
     (exampleControlPlane WatchNamespacesTypeList [''a'', ''b'']))) = None"
proof -
  let ?cp = "exampleControlPlane WatchNamespacesTypeList [''a'', ''b'']"
  let ?wn = "\<lparr>wn_type = WatchNamespacesTypeList, wn_list = [''a'', ''b'']\<rparr>"
  have wn: "cp_watchNamespaces ?cp = Some ?wn" "wn_type ?wn = WatchNamespacesTypeList"
    by (simp_all add: exampleControlPlane_def)
  have a: "hasGrant grantsInA ?cp ''a''" "\<not> hasGrant grantsInA ?cp ''b''"
    "hasGrant grantsInAB ?cp ''a''" "hasGrant grantsInAB ?cp ''b''"
    by (simp_all add: hasGrant_def grantsInA_def grantsInAB_def exampleGrant_def fromMatches_def
        schemeGroup_def exampleControlPlane_def)
  have ok: "fst (snd (validateWatchNamespaceGrants grantsInAB ?cp)) = None"
    using validateWatchNamespaceGrants_list [OF wn, of grantsInAB] a by simp
  have "validateWatchNamespaceGrants grantsInA ?cp =
     ([''a''],
      Some (Errorf ''WatchNamespaceGrant in Namespace %s to ControlPlane in Namespace %s not found''
        [''b'', ''kong-system''] None),
      [''a'', ''b''])"
    by (simp add: validateWatchNamespaceGrants_def ensureWatchNamespaceGrantsForNamespace_def
        grantsInA_def exampleGrant_def fromMatches_def schemeGroup_def exampleControlPlane_def)
  then show ?thesis using a ok by simp
qed

section \<open>Properties of ensureExtendablesReferencesInStatus\<close>

lemma hasExtensionApplied_iff:
  "hasExtensionAppliedCondition (ext_conditions d) \<longleftrightarrow> extensionApplied d"
  by (auto simp: hasExtensionAppliedCondition_def extensionApplied_def
      KonnectExtensionAppliedType_def list_ex_iff)

lemma refsLoop_eq:
  "refsLoop acc ds =
     (if filter extensionApplied ds = [] then acc
      else Some (sliceList acc @ map refOf (filter extensionApplied ds)))"
  by (induction ds arbitrary: acc)
     (auto simp: hasExtensionApplied_iff sliceList_def refOf_def split: option.splits)

lemma refToStr_refOf: "refToStr (refOf d) = Some (keyOf d)"
  by (simp add: refToStr_def refOf_def keyOf_def)

lemma those_refs: "those (map refToStr (map refOf ds)) = Some (map keyOf ds)"
  by (induction ds) (auto simp: refToStr_refOf)

lemma sorted_pairs_keys:
  assumes "\<forall>p \<in> set zs. refToStr (snd p) = Some (fst p)"
  shows "those (map refToStr (map snd zs)) = Some (map fst zs)"
  using assms by (induction zs) auto

lemma sortRefs_refOf:
  "\<exists>rs. sortRefs (map refOf ds) = Some rs \<and> mset rs = mset (map refOf ds) \<and>
        sortedByNamespaceName rs"
proof (cases "length (map refOf ds) < 2")
  case True
  have "sorted (map keyOf ds)" using True by (cases ds rule: list.exhaust; cases "tl ds") auto
  then show ?thesis using True those_refs [of ds]
    by (simp add: sortRefs_def sortedByNamespaceName_def del: map_map)
next
  case False
  define zs where "zs = sort_key fst (zip (map keyOf ds) (map refOf ds))"
  have set_zs: "set zs = set (zip (map keyOf ds) (map refOf ds))" by (simp add: zs_def)
  have keys: "\<forall>p \<in> set zs. refToStr (snd p) = Some (fst p)"
    unfolding set_zs by (auto simp: set_zip refToStr_refOf)
  have e: "map snd (zip (map keyOf ds) (map refOf ds)) = map refOf ds"
    by (rule map_snd_zip) simp
  have "mset zs = mset (zip (map keyOf ds) (map refOf ds))" by (simp add: zs_def)
  then have m: "mset (map snd zs) = mset (map refOf ds)"
    using e by (metis mset_map)
  have s: "sorted (map fst zs)" by (simp add: zs_def)
  have "sortRefs (map refOf ds) = Some (map snd zs)"
    using False those_refs [of ds] by (simp add: sortRefs_def zs_def del: map_map)
  moreover have "sortedByNamespaceName (map snd zs)"
    using sorted_pairs_keys [OF keys] s by (simp add: sortedByNamespaceName_def)
  ultimately show ?thesis using m by blast
qed

lemma sortRefsSlice_refsLoop:
  "\<exists>refs. sortRefsSlice (refsLoop None ds) = Some refs \<and>
          mset (sliceList refs) = mset (map refOf (filter extensionApplied ds)) \<and>
          sortedByNamespaceName (sliceList refs)"
proof (cases "filter extensionApplied ds = []")
  case True
  then show ?thesis
    by (simp add: refsLoop_eq sortRefsSlice_def sliceList_def sortedByNamespaceName_def)
next
  case False
  obtain rs where "sortRefs (map refOf (filter extensionApplied ds)) = Some rs"
    "mset rs = mset (map refOf (filter extensionApplied ds))" "sortedByNamespaceName rs"
    using sortRefs_refOf by blast
  then show ?thesis using False
    by (simp add: refsLoop_eq sortRefsSlice_def sliceList_def)
qed

text \<open>
  Claim C7: \<open>ensureExtendablesReferencesInStatus\<close> returns (it does not panic) and
  leaves in the status of the extension, for the data planes and for the control
  planes, the references to exactly the dependents that have the extension applied,
  each once per dependent, sorted in ascending order of \<open>namespace/name\<close>; the rest
  of the status is unchanged. When the status so recomputed equals the stored one, no
  status is written and the function returns the zero result with no error; otherwise
  the recomputed status is written once.
\<close>

theorem ensureExtendablesReferencesInStatus_refs:
  "\<exists>res. ensureExtendablesReferencesInStatus upd st dps cps = Some res \<and>
     st_other (er_status res) = st_other st \<and>
     mset (sliceList (st_dataPlaneRefs (er_status res))) =
       mset (map refOf (filter extensionApplied dps)) \<and>
     mset (sliceList (st_controlPlaneRefs (er_status res))) =
       mset (map refOf (filter extensionApplied cps)) \<and>
     sortedByNamespaceName (sliceList (st_dataPlaneRefs (er_status res))) \<and>
     sortedByNamespaceName (sliceList (st_controlPlaneRefs (er_status res))) \<and>
     (er_status res = st \<longrightarrow>
        er_writes res = [] \<and> er_result res = zeroResult \<and> er_error res = None) \<and>
     (er_status res \<noteq> st \<longrightarrow> er_writes res = [er_status res])"
proof -
  obtain dpRefs where dp: "sortRefsSlice (refsLoop None dps) = Some dpRefs"
    "mset (sliceList dpRefs) = mset (map refOf (filter extensionApplied dps))"
    "sortedByNamespaceName (sliceList dpRefs)"
    using sortRefsSlice_refsLoop by blast
  obtain cpRefs where cp: "sortRefsSlice (refsLoop None cps) = Some cpRefs"
    "mset (sliceList cpRefs) = mset (map refOf (filter extensionApplied cps))"
    "sortedByNamespaceName (sliceList cpRefs)"
    using sortRefsSlice_refsLoop by blast
  define ext2 where "ext2 = st\<lparr>st_dataPlaneRefs := dpRefs, st_controlPlaneRefs := cpRefs\<rparr>"
  have sel: "st_dataPlaneRefs ext2 = dpRefs" "st_controlPlaneRefs ext2 = cpRefs"
    "st_other ext2 = st_other st"
    by (simp_all add: ext2_def)
  have "\<exists>res. ensureExtendablesReferencesInStatus upd st dps cps = Some res \<and>
          er_status res = ext2 \<and>
          (ext2 = st \<longrightarrow> er_writes res = [] \<and> er_result res = zeroResult \<and> er_error res = None) \<and>
          (ext2 \<noteq> st \<longrightarrow> er_writes res = [ext2])"
  proof (cases "ext2 = st")
    case True
    then show ?thesis using dp(1) cp(1)
      by (simp add: ensureExtendablesReferencesInStatus_def Let_def ext2_def)
  next
    case False
    then show ?thesis using dp(1) cp(1)
      by (cases "upd ext2")
         (simp_all add: ensureExtendablesReferencesInStatus_def Let_def ext2_def)
  qed
  then obtain res where res: "ensureExtendablesReferencesInStatus upd st dps cps = Some res"
    "er_status res = ext2"
    "ext2 = st \<longrightarrow> er_writes res = [] \<and> er_result res = zeroResult \<and> er_error res = None"
    "ext2 \<noteq> st \<longrightarrow> er_writes res = [ext2]"
    by blast
  show ?thesis
    using res sel dp(2,3) cp(2,3) by (intro exI [of _ res]) simp
qed

lemma example_first_pass:
  "ensureExtendablesReferencesInStatus (\<lambda>s. None) emptyStatus exampleDependents [] =
     Some \<lparr>er_result = \<lparr>res_requeue = True, res_requeueAfter = 0\<rparr>, er_error = None,
           er_status = statusWithD1, er_writes = [statusWithD1]\<rparr>"
  by (simp add: ensureExtendablesReferencesInStatus_def Let_def sortRefsSlice_def sortRefs_def
      hasExtensionAppliedCondition_def KonnectExtensionAppliedType_def exampleDependents_def
      appliedTrue_def appliedFalse_def emptyStatus_def statusWithD1_def zeroResult_def)

lemma example_second_pass:
  "ensureExtendablesReferencesInStatus (\<lambda>s. None) statusWithD1 exampleDependents [] =
     Some \<lparr>er_result = zeroResult, er_error = None, er_status = statusWithD1, er_writes = []\<rparr>"
  by (simp add: ensureExtendablesReferencesInStatus_def Let_def sortRefsSlice_def sortRefs_def
      hasExtensionAppliedCondition_def KonnectExtensionAppliedType_def exampleDependents_def
      appliedTrue_def appliedFalse_def statusWithD1_def)

theorem ensureExtendablesReferencesInStatus_refs_witness:
  "(\<exists>res. ensureExtendablesReferencesInStatus (\<lambda>s. None) emptyStatus exampleDependents [] = Some res \<and>
      er_status res \<noteq> emptyStatus \<and> er_writes res = [er_status res] \<and>
      st_dataPlaneRefs (er_status res) =
        Some [\<lparr>ref_name = ''d1'', ref_namespace = Some ''default''\<rparr>]) \<and>
   (\<exists>res. ensureExtendablesReferencesInStatus (\<lambda>s. None) statusWithD1 exampleDependents [] = Some res \<and>
      er_status res = statusWithD1 \<and> er_writes res = [] \<and> er_result res = zeroResult \<and>
      er_error res = None)"
  using ensureExtendablesReferencesInStatus_refs [of "\<lambda>s. None" emptyStatus exampleDependents "[]"]
    ensureExtendablesReferencesInStatus_refs [of "\<lambda>s. None" statusWithD1 exampleDependents "[]"]
  by (simp add: example_first_pass example_second_pass)
     (simp add: statusWithD1_def emptyStatus_def)

text \<open>
  Claim C8: when the status update that \<open>ensureExtendablesReferencesInStatus\<close> makes
  is answered with a conflict, the function returns a result that asks for a requeue
  and no error; when it is answered with any other failure, the function returns
  that failure, wrapped, as its error.
\<close>

theorem ensureExtendablesReferencesInStatus_conflict:
  assumes "ensureExtendablesReferencesInStatus upd st dps cps = Some res"
    and "er_writes res = [w]" and "upd w = Some err"
  shows "(isConflict err \<longrightarrow>
            er_result res = \<lparr>res_requeue = True, res_requeueAfter = 0\<rparr> \<and> er_error res = None) \<and>
         (\<not> isConflict err \<longrightarrow>
            er_result res = zeroResult \<and>
            er_error res = Some (Errorf
              ''failed to update KonnectExtension ControlPlane and DataPlane references in status: %w''
              [] (Some (ApiErr err))))"
  using assms
  by (auto simp: ensureExtendablesReferencesInStatus_def Let_def zeroResult_def
      split: option.splits if_splits)

lemma example_update_fails:
  "ensureExtendablesReferencesInStatus (\<lambda>s. Some e) emptyStatus exampleDependents [] =
     Some (if isConflict e
           then \<lparr>er_result = \<lparr>res_requeue = True, res_requeueAfter = 0\<rparr>, er_error = None,
                 er_status = statusWithD1, er_writes = [statusWithD1]\<rparr>
           else \<lparr>er_result = zeroResult,
                 er_error = Some (Errorf
                   ''failed to update KonnectExtension ControlPlane and DataPlane references in status: %w''
                   [] (Some (ApiErr e))),
                 er_status = statusWithD1, er_writes = [statusWithD1]\<rparr>)"
  by (simp add: ensureExtendablesReferencesInStatus_def Let_def sortRefsSlice_def sortRefs_def
      hasExtensionAppliedCondition_def KonnectExtensionAppliedType_def exampleDependents_def
      appliedTrue_def appliedFalse_def emptyStatus_def statusWithD1_def zeroResult_def)

theorem ensureExtendablesReferencesInStatus_conflict_witness:
  "(\<exists>res. ensureExtendablesReferencesInStatus (\<lambda>s. Some conflictError) emptyStatus
            exampleDependents [] = Some res \<and>
      er_writes res = [statusWithD1] \<and> isConflict conflictError \<and>
      er_result res = \<lparr>res_requeue = True, res_requeueAfter = 0\<rparr> \<and> er_error res = None) \<and>
   (\<exists>res. ensureExtendablesReferencesInStatus (\<lambda>s. Some serverError) emptyStatus
            exampleDependents [] = Some res \<and>
      er_writes res = [statusWithD1] \<and> \<not> isConflict serverError \<and>
      er_result res = zeroResult \<and>
      er_error res = Some (Errorf
        ''failed to update KonnectExtension ControlPlane and DataPlane references in status: %w''
        [] (Some (ApiErr serverError))))"
proof -
  let ?a = "\<lparr>er_result = \<lparr>res_requeue = True, res_requeueAfter = 0\<rparr>, er_error = None,
            er_status = statusWithD1, er_writes = [statusWithD1]\<rparr>"
  let ?b = "\<lparr>er_result = zeroResult,
            er_error = Some (Errorf
              ''failed to update KonnectExtension ControlPlane and DataPlane references in status: %w''
              [] (Some (ApiErr serverError))),
            er_status = statusWithD1, er_writes = [statusWithD1]\<rparr>"
  have c: "isConflict conflictError" "\<not> isConflict serverError"
    by (simp_all add: conflictError_def serverError_def)
  have a: "ensureExtendablesReferencesInStatus (\<lambda>s. Some conflictError) emptyStatus
            exampleDependents [] = Some ?a"
    using c by (simp add: example_update_fails)
  have b: "ensureExtendablesReferencesInStatus (\<lambda>s. Some serverError) emptyStatus
            exampleDependents [] = Some ?b"
    using c by (simp add: example_update_fails)
  show ?thesis
    using c a b
      ensureExtendablesReferencesInStatus_conflict [OF a, of statusWithD1 conflictError]
      ensureExtendablesReferencesInStatus_conflict [OF b, of statusWithD1 serverError]
    by simp
qed

section \<open>Properties of getGatewayKonnectControlPlane\<close>

text \<open>
  Claim C9, as stated, fails: the reference resolves to an existing control plane that
  is not programmed, but the status patch that sets the condition asks for a requeue,
  and the function returns that request with no error at all.
\<close>

theorem getGatewayKonnectControlPlane_requeue_counterexample:
  "getGatewayKonnectControlPlane (exampleKonnectClient (requeueResult, None))
     (exampleExtension ''cp1'') [] =
     Some \<lparr>g_cp = None, g_res = requeueResult, g_err = None,
           g_patches = [[refInvalidCondition ''Konnect control plane cp1/default not programmed yet'']]\<rparr>"
  by (simp add: getGatewayKonnectControlPlane_def lookupControlPlane_def exampleKonnectClient_def
      exampleExtension_def unprogrammedControlPlane_def exampleHasConditionTrue_def
      requeueResult_def refInvalidCondition_def isZero_def zeroResult_def
      ControlPlaneRefValidConditionType_def ControlPlaneRefReasonInvalid_def
      ControlPlaneRefReasonValid_def KonnectEntityProgrammedConditionType_def)

text \<open>
  Claim C9, amended: when the reference resolves to an existing control plane that
  does not report the programmed condition \<open>True\<close>, the function hands the condition
  \<open>ControlPlaneRefValid\<close>, \<open>False\<close> with reason \<open>Invalid\<close>, after the depending
  conditions, to the status patch; when the patch succeeds and asks for no requeue it
  returns the not-programmed error, and otherwise the result and the error of the
  patch. When the referenced object is not found it does the same with the not-found
  error, which is a different error. In all these cases no control plane is returned.
\<close>

theorem getGatewayKonnectControlPlane_not_programmed:
  "(resolvesTo r ext kgcp \<and> \<not> kc_hasConditionTrue r ''Programmed'' kgcp \<longrightarrow>
      getGatewayKonnectControlPlane r ext dependingConditions =
        Some (afterPatch r
          (dependingConditions @
             [refInvalidCondition (''Konnect control plane '' @ kgcp_name kgcp @ ''/'' @
                kgcp_namespace kgcp @ '' not programmed yet'')])
          ErrKonnectGatewayControlPlaneNotProgrammed)) \<and>
   (notFoundWith r ext e \<longrightarrow>
      getGatewayKonnectControlPlane r ext dependingConditions =
        Some (afterPatch r (dependingConditions @ [refInvalidCondition (ae_message e)])
          (ApiErr e))) \<and>
   ApiErr e \<noteq> ErrKonnectGatewayControlPlaneNotProgrammed \<and>
   g_cp (afterPatch r conds err) = None"
proof (intro conjI impI)
  assume h: "resolvesTo r ext kgcp \<and> \<not> kc_hasConditionTrue r ''Programmed'' kgcp"
  then have "lookupControlPlane r ext = Inr (Some kgcp, None)"
    by (auto simp: resolvesTo_def lookupControlPlane_def
        split: controlPlaneRef.splits sum.splits list.splits)
  then show "getGatewayKonnectControlPlane r ext dependingConditions =
        Some (afterPatch r
          (dependingConditions @
             [refInvalidCondition (''Konnect control plane '' @ kgcp_name kgcp @ ''/'' @
                kgcp_namespace kgcp @ '' not programmed yet'')])
          ErrKonnectGatewayControlPlaneNotProgrammed)"
    using h
    by (auto simp: getGatewayKonnectControlPlane_def afterPatch_def refInvalidCondition_def
        isZero_def ControlPlaneRefValidConditionType_def ControlPlaneRefReasonInvalid_def
        ControlPlaneRefReasonValid_def KonnectEntityProgrammedConditionType_def Let_def
        split: prod.splits)
next
  assume h: "notFoundWith r ext e"
  then have "\<exists>cp. lookupControlPlane r ext = Inr (cp, Some e)"
    by (auto simp: notFoundWith_def lookupControlPlane_def
        split: controlPlaneRef.splits sum.splits list.splits)
  then show "getGatewayKonnectControlPlane r ext dependingConditions =
        Some (afterPatch r (dependingConditions @ [refInvalidCondition (ae_message e)])
          (ApiErr e))"
    by (auto simp: getGatewayKonnectControlPlane_def afterPatch_def refInvalidCondition_def
        isZero_def ControlPlaneRefValidConditionType_def ControlPlaneRefReasonInvalid_def
        ControlPlaneRefReasonValid_def Let_def
        split: prod.splits)
next
  show "ApiErr e \<noteq> ErrKonnectGatewayControlPlaneNotProgrammed" by simp
  show "g_cp (afterPatch r conds err) = None"
    by (simp add: afterPatch_def split: prod.splits)
qed

theorem getGatewayKonnectControlPlane_not_programmed_witness:
  "resolvesTo (exampleKonnectClient (zeroResult, None)) (exampleExtension ''cp1'')
     unprogrammedControlPlane \<and>
   \<not> kc_hasConditionTrue (exampleKonnectClient (zeroResult, None)) ''Programmed''
       unprogrammedControlPlane \<and>
   getGatewayKonnectControlPlane (exampleKonnectClient (zeroResult, None))
     (exampleExtension ''cp1'') [] =
     Some \<lparr>g_cp = None, g_res = zeroResult,
           g_err = Some ErrKonnectGatewayControlPlaneNotProgrammed,
           g_patches = [[refInvalidCondition ''Konnect control plane cp1/default not programmed yet'']]\<rparr> \<and>
   notFoundWith (exampleKonnectClient (zeroResult, None)) (exampleExtension ''cp2'') notFoundError \<and>
   getGatewayKonnectControlPlane (exampleKonnectClient (zeroResult, None))
     (exampleExtension ''cp2'') [] =
     Some \<lparr>g_cp = None, g_res = zeroResult, g_err = Some (ApiErr notFoundError),
           g_patches = [[refInvalidCondition ''not found'']]\<rparr>"
proof -
  let ?r = "exampleKonnectClient (zeroResult, None)"
  have a: "resolvesTo ?r (exampleExtension ''cp1'') unprogrammedControlPlane"
    "\<not> kc_hasConditionTrue ?r ''Programmed'' unprogrammedControlPlane"
    "notFoundWith ?r (exampleExtension ''cp2'') notFoundError"
    by (simp_all add: resolvesTo_def notFoundWith_def exampleKonnectClient_def exampleExtension_def
        exampleHasConditionTrue_def unprogrammedControlPlane_def notFoundError_def)
  have p: "afterPatch ?r conds err =
      \<lparr>g_cp = None, g_res = zeroResult, g_err = Some err, g_patches = [conds]\<rparr>" for conds err
    by (simp add: afterPatch_def exampleKonnectClient_def)
  have n: "kgcp_name unprogrammedControlPlane = ''cp1''"
    "kgcp_namespace unprogrammedControlPlane = ''default''"
    "ae_message notFoundError = ''not found''"
    by (simp_all add: unprogrammedControlPlane_def notFoundError_def)
  show ?thesis
    using a
      getGatewayKonnectControlPlane_not_programmed
        [of ?r "exampleExtension ''cp1''" unprogrammedControlPlane "[]"]
      getGatewayKonnectControlPlane_not_programmed
        [of ?r "exampleExtension ''cp2''" unprogrammedControlPlane "[]" notFoundError]
    by (simp add: p n)
qed

section \<open>Properties of processClusterRole\<close>

text \<open>
  Claim C2 says that every pair of an API group and a resource of a rule gets one
  rule of its own, restricted to that resource, and that the resources of the two
  outputs are those of the input. The code does not do so for this input: the rule
  has the resources \<open>configmaps\<close>, which discovery marks namespaced, and
  \<open>widgets\<close>, which discovery does not know. The rule emitted for \<open>widgets\<close> is
  the loop variable as the round for \<open>configmaps\<close> has left it: it names
  \<open>configmaps\<close>, so \<open>widgets\<close> is in neither output. With the two resources in
  the other order, the rule emitted for \<open>widgets\<close> names both resources, not the
  one it was emitted for.
\<close>

theorem processClusterRole_resources_lost:
  "processClusterRole (exampleClusterRole [''configmaps'', ''widgets'']) exampleDiscovery =
     ([exampleRule [''configmaps'']], [exampleRule [''configmaps'']]) \<and>
   resourcesOf (fst (processClusterRole (exampleClusterRole [''configmaps'', ''widgets''])
       exampleDiscovery)) \<union>
   resourcesOf (snd (processClusterRole (exampleClusterRole [''configmaps'', ''widgets''])
       exampleDiscovery)) = {''configmaps''} \<and>
   resourcesOf (cr_rules (exampleClusterRole [''configmaps'', ''widgets''])) =
     {''configmaps'', ''widgets''} \<and>
   processClusterRole (exampleClusterRole [''widgets'', ''configmaps'']) exampleDiscovery =
     ([exampleRule [''configmaps'']], [exampleRule [''widgets'', ''configmaps'']])"
  by (simp add: processClusterRole_def exampleClusterRole_def exampleRule_def
      exampleDiscovery_def resourcesOf_def Let_def)

text \<open>
  Claim C3 says that a resource that is not in the discovery mapping gets a rule in
  the cluster-scoped output and is never dropped. The code drops \<open>widgets\<close> here:
  it is not in the discovery mapping and it comes after a resource that is, and no
  rule of the cluster-scoped output names it, nor does one of the namespaced output.
\<close>

theorem processClusterRole_unknown_resource_dropped:
  "discoveryLoop '''' ''widgets'' exampleDiscovery = None \<and>
   snd (processClusterRole (exampleClusterRole [''configmaps'', ''widgets'']) exampleDiscovery) =
     [exampleRule [''configmaps'']] \<and>
   ''widgets'' \<notin> resourcesOf (snd (processClusterRole
      (exampleClusterRole [''configmaps'', ''widgets'']) exampleDiscovery)) \<and>
   ''widgets'' \<notin> resourcesOf (fst (processClusterRole
      (exampleClusterRole [''configmaps'', ''widgets'']) exampleDiscovery))"
  by (simp add: processClusterRole_def exampleClusterRole_def exampleRule_def
      exampleDiscovery_def resourcesOf_def Let_def)

section \<open>Properties of ensureDeployment\<close>

text \<open>
  Claim C1, as stated, fails: the replicas are not evaluated on a pass where
  \<open>EnforceConfig\<close> is false and the hash of the spec matches the annotation of the
  existing Deployment. With no data plane set, an existing Deployment of 3 replicas is
  returned as it is; with a data plane set and 2 replicas declared, an existing
  Deployment of 0 replicas is returned as it is. Nothing is patched.
\<close>

theorem ensureDeployment_hash_match_counterexample:
  "ensureDeployment okClient keepMeta (exampleDeploymentEnv True)
     (Inr [exampleDeployment ''controlplane-kong'' (Some 3)])
     (exampleParams None (Some 3) False) =
     (Return Noop (Some (exampleDeployment ''controlplane-kong'' (Some 3))) None, []) \<and>
   ensureDeployment okClient keepMeta (exampleDeploymentEnv True)
     (Inr [exampleDeployment ''controlplane-kong'' (Some 0)])
     (exampleParams (Some ''dataplane-kong'') (Some 2) False) =
     (Return Noop (Some (exampleDeployment ''controlplane-kong'' (Some 0))) None, [])"
  by (simp add: ensureDeployment_def exampleDeploymentEnv_def exampleParams_def)

lemma replicasSwitch_unset:
  "\<not> dataplaneIsSet \<Longrightarrow> replicas \<noteq> Some 0 \<Longrightarrow>
   replicasSwitch dataplaneIsSet replicas existingReplicas updated =
     (Some 0, updated \<or> existingReplicas \<noteq> Some 0)"
  by (auto simp: replicasSwitch_def numReplicasWhenNoDataPlane_def split: option.splits)

lemma replicasSwitch_set:
  "dataplaneIsSet \<Longrightarrow> replicas \<noteq> None \<Longrightarrow> replicas \<noteq> Some 0 \<Longrightarrow>
   replicasSwitch dataplaneIsSet replicas existingReplicas updated =
     (replicas, updated \<or> existingReplicas \<noteq> replicas)"
  by (auto simp: replicasSwitch_def numReplicasWhenNoDataPlane_def split: option.splits)

lemma ensureDeployment_update:
  assumes "de_generateImage env (de_validateControlPlaneImage env) = Inr img"
    and "de_generateDeployment env img = Inr generated"
    and "p_enforceConfig params \<or> de_specHashMatchesAnnotation env existing = Inr False"
  shows "\<exists>patched updated.
           ensureDeployment cl metaUpd env (Inr [existing]) params =
             (ApplyPatchIfNotEmpty patched existing updated, []) \<and>
           (d_replicas patched, updated) =
             replicasSwitch (dataPlaneIsSet (p_controlPlane params))
               (cp_replicas (p_controlPlane params)) (d_replicas existing)
               (fst (metaUpd (d_meta existing) (d_meta generated)) \<or>
                \<not> de_templateEqual env (d_template existing) (d_template generated))"
  using assms
  by (cases "replicasSwitch (dataPlaneIsSet (p_controlPlane params))
               (cp_replicas (p_controlPlane params)) (d_replicas existing)
               (fst (metaUpd (d_meta existing) (d_meta generated)) \<or>
                \<not> de_templateEqual env (d_template existing) (d_template generated))")
     (auto simp: ensureDeployment_def dataPlaneIsSet_def Let_def split: prod.splits)

text \<open>
  Claim C1, amended: the replicas are evaluated on a pass that finds one Deployment
  and either has \<open>EnforceConfig\<close> set or finds that the hash of the spec does not match.
  On such a pass, with no data plane set and declared replicas that are absent or not
  0, the Deployment handed to the patch has 0 replicas; with a data plane set and
  declared replicas that are present and not 0, it has the declared replicas; in both
  cases the patch is asked for when the existing replicas differ. On a pass with
  \<open>EnforceConfig\<close> false and a matching hash the existing Deployment is returned
  unchanged, with \<open>Noop\<close>. A Deployment created while no data plane is set has 0
  replicas.
\<close>

theorem ensureDeployment_replicas:
  assumes "de_generateImage env (de_validateControlPlaneImage env) = Inr img"
    and "de_generateDeployment env img = Inr generated"
  shows "(p_enforceConfig params \<or> de_specHashMatchesAnnotation env existing = Inr False \<longrightarrow>
           (\<exists>patched updated.
              ensureDeployment cl metaUpd env (Inr [existing]) params =
                (ApplyPatchIfNotEmpty patched existing updated, []) \<and>
              (\<not> dataPlaneIsSet (p_controlPlane params) \<and>
               cp_replicas (p_controlPlane params) \<noteq> Some 0 \<longrightarrow>
                 d_replicas patched = Some 0 \<and> (d_replicas existing \<noteq> Some 0 \<longrightarrow> updated)) \<and>
              (dataPlaneIsSet (p_controlPlane params) \<and>
               cp_replicas (p_controlPlane params) \<noteq> None \<and>
               cp_replicas (p_controlPlane params) \<noteq> Some 0 \<longrightarrow>
                 d_replicas patched = cp_replicas (p_controlPlane params) \<and>
                 (d_replicas existing \<noteq> cp_replicas (p_controlPlane params) \<longrightarrow> updated)))) \<and>
         (\<not> p_enforceConfig params \<and> de_specHashMatchesAnnotation env existing = Inr True \<longrightarrow>
            ensureDeployment cl metaUpd env (Inr [existing]) params =
              (Return Noop (Some existing) None, [])) \<and>
         (\<not> dataPlaneIsSet (p_controlPlane params) \<and> createErr cl = None \<longrightarrow>
            ensureDeployment cl metaUpd env (Inr []) params =
              (Return Created (Some (generated\<lparr>d_replicas := Some 0\<rparr>)) None, [ClientCreate]))"
proof (intro conjI impI)
  assume h: "p_enforceConfig params \<or> de_specHashMatchesAnnotation env existing = Inr False"
  obtain patched updated where p:
    "ensureDeployment cl metaUpd env (Inr [existing]) params =
       (ApplyPatchIfNotEmpty patched existing updated, [])"
    "(d_replicas patched, updated) =
       replicasSwitch (dataPlaneIsSet (p_controlPlane params))
         (cp_replicas (p_controlPlane params)) (d_replicas existing)
         (fst (metaUpd (d_meta existing) (d_meta generated)) \<or>
          \<not> de_templateEqual env (d_template existing) (d_template generated))"
    using ensureDeployment_update [OF assms h] by blast
  have "\<not> dataPlaneIsSet (p_controlPlane params) \<and>
        cp_replicas (p_controlPlane params) \<noteq> Some 0 \<longrightarrow>
          d_replicas patched = Some 0 \<and> (d_replicas existing \<noteq> Some 0 \<longrightarrow> updated)"
    using p(2) by (auto simp: replicasSwitch_unset)
  moreover have "dataPlaneIsSet (p_controlPlane params) \<and>
        cp_replicas (p_controlPlane params) \<noteq> None \<and>
        cp_replicas (p_controlPlane params) \<noteq> Some 0 \<longrightarrow>
          d_replicas patched = cp_replicas (p_controlPlane params) \<and>
          (d_replicas existing \<noteq> cp_replicas (p_controlPlane params) \<longrightarrow> updated)"
    using p(2) by (auto simp: replicasSwitch_set)
  ultimately show "\<exists>patched updated.
              ensureDeployment cl metaUpd env (Inr [existing]) params =
                (ApplyPatchIfNotEmpty patched existing updated, []) \<and>
              (\<not> dataPlaneIsSet (p_controlPlane params) \<and>
               cp_replicas (p_controlPlane params) \<noteq> Some 0 \<longrightarrow>
                 d_replicas patched = Some 0 \<and> (d_replicas existing \<noteq> Some 0 \<longrightarrow> updated)) \<and>
              (dataPlaneIsSet (p_controlPlane params) \<and>
               cp_replicas (p_controlPlane params) \<noteq> None \<and>
               cp_replicas (p_controlPlane params) \<noteq> Some 0 \<longrightarrow>
                 d_replicas patched = cp_replicas (p_controlPlane params) \<and>
                 (d_replicas existing \<noteq> cp_replicas (p_controlPlane params) \<longrightarrow> updated))"
    using p(1) by blast
next
  assume "\<not> p_enforceConfig params \<and> de_specHashMatchesAnnotation env existing = Inr True"
  then show "ensureDeployment cl metaUpd env (Inr [existing]) params =
      (Return Noop (Some existing) None, [])"
    using assms by (simp add: ensureDeployment_def)
next
  assume "\<not> dataPlaneIsSet (p_controlPlane params) \<and> createErr cl = None"
  then show "ensureDeployment cl metaUpd env (Inr []) params =
      (Return Created (Some (generated\<lparr>d_replicas := Some 0\<rparr>)) None, [ClientCreate])"
    using assms
    by (simp add: ensureDeployment_def dataPlaneIsSet_def numReplicasWhenNoDataPlane_def)
qed

theorem ensureDeployment_replicas_witness:
  "ensureDeployment okClient keepMeta (exampleDeploymentEnv True)
     (Inr [exampleDeployment ''controlplane-kong'' (Some 3)])
     (exampleParams None (Some 3) True) =
     (ApplyPatchIfNotEmpty (exampleDeployment ''controlplane-kong'' (Some 0))
        (exampleDeployment ''controlplane-kong'' (Some 3)) True, []) \<and>
   ensureDeployment okClient keepMeta (exampleDeploymentEnv False)
     (Inr [exampleDeployment ''controlplane-kong'' (Some 0)])
     (exampleParams (Some ''dataplane-kong'') (Some 2) False) =
     (ApplyPatchIfNotEmpty (exampleDeployment ''controlplane-kong'' (Some 2))
        (exampleDeployment ''controlplane-kong'' (Some 0)) True, []) \<and>
   ensureDeployment okClient keepMeta (exampleDeploymentEnv True)
     (Inr [exampleDeployment ''controlplane-kong'' (Some 0)])
     (exampleParams None (Some 3) False) =
     (Return Noop (Some (exampleDeployment ''controlplane-kong'' (Some 0))) None, []) \<and>
   ensureDeployment okClient keepMeta (exampleDeploymentEnv True) (Inr [])
     (exampleParams None (Some 3) False) =
     (Return Created (Some (exampleDeployment ''controlplane-kong'' (Some 0))) None, [ClientCreate])"
proof -
  let ?image = "''kong/kubernetes-ingress-controller:3.4''"
  let ?generated = "\<lparr>d_meta = exampleMeta ''controlplane-kong'', d_template = ?image,
    d_replicas = Some (1 :: 32 word)\<rparr>"
  have g: "de_generateImage (exampleDeploymentEnv m)
      (de_validateControlPlaneImage (exampleDeploymentEnv m)) = Inr ?image"
    "de_generateDeployment (exampleDeploymentEnv m) ?image = Inr ?generated" for m
    by (simp_all add: exampleDeploymentEnv_def)
  have e: "ensureDeployment okClient keepMeta (exampleDeploymentEnv True)
     (Inr [exampleDeployment ''controlplane-kong'' (Some 3)])
     (exampleParams None (Some 3) True) =
     (ApplyPatchIfNotEmpty (exampleDeployment ''controlplane-kong'' (Some 0))
        (exampleDeployment ''controlplane-kong'' (Some 3)) True, [])"
    "ensureDeployment okClient keepMeta (exampleDeploymentEnv False)
     (Inr [exampleDeployment ''controlplane-kong'' (Some 0)])
     (exampleParams (Some ''dataplane-kong'') (Some 2) False) =
     (ApplyPatchIfNotEmpty (exampleDeployment ''controlplane-kong'' (Some 2))
        (exampleDeployment ''controlplane-kong'' (Some 0)) True, [])"
    by (simp_all add: ensureDeployment_def exampleDeploymentEnv_def exampleParams_def
        exampleDeployment_def keepMeta_def replicasSwitch_def numReplicasWhenNoDataPlane_def
        Let_def)
  have "\<not> dataPlaneIsSet (p_controlPlane (exampleParams None (Some 3) False))"
    "createErr okClient = None"
    "\<not> p_enforceConfig (exampleParams None (Some 3) False)"
    "de_specHashMatchesAnnotation (exampleDeploymentEnv True)
       (exampleDeployment ''controlplane-kong'' (Some 0)) = Inr True"
    "?generated\<lparr>d_replicas := Some 0\<rparr> = exampleDeployment ''controlplane-kong'' (Some 0)"
    by (simp_all add: dataPlaneIsSet_def exampleParams_def okClient_def exampleDeploymentEnv_def
        exampleDeployment_def)
  then show ?thesis
    using e ensureDeployment_replicas [where env = "exampleDeploymentEnv True"
        and params = "exampleParams None (Some 3) False"
        and existing = "exampleDeployment ''controlplane-kong'' (Some 0)"
        and cl = okClient and metaUpd = keepMeta, OF g]
      ensureDeployment_replicas [where env = "exampleDeploymentEnv True"
        and params = "exampleParams None (Some 3) True"
        and existing = "exampleDeployment ''controlplane-kong'' (Some 3)"
        and cl = okClient and metaUpd = keepMeta, OF g]
      ensureDeployment_replicas [where env = "exampleDeploymentEnv False"
        and params = "exampleParams (Some ''dataplane-kong'') (Some 2) False"
        and existing = "exampleDeployment ''controlplane-kong'' (Some 0)"
        and cl = okClient and metaUpd = keepMeta, OF g]
    by simp
qed

section \<open>Properties of the passes that find more than one owned object\<close>

text \<open>
  Claim C4, as stated, fails for the admission webhook Services: while the admission
  webhook is disabled, a pass that finds two of them calls no reduce operation; it
  deletes them all and returns \<open>Deleted\<close> with no error.
\<close>

theorem ensureAdmissionWebhookService_disabled_counterexample:
  "ensureAdmissionWebhookService okClient keepMeta
     (p_controlPlane (exampleParams None None False)) False
     (Inr [exampleService ''webhook-a'', exampleService ''webhook-b''])
     (Inr (exampleService ''webhook'')) =
     ((Deleted, None, None), [ClientDeleteAll])"
  by (simp add: ensureAdmissionWebhookService_def okClient_def)

text \<open>
  Claim C4, amended: a pass that finds more than one Deployment, ServiceAccount,
  ClusterRole, RoleBinding or ClusterRoleBinding of the control plane, or more than
  one admission webhook Service while the admission webhook is enabled, calls the
  reduce operation of the kind and makes no other change; it returns \<open>Noop\<close> (or
  \<open>false\<close>), no object and an error: the error of the reduce operation when that
  failed, else the error that says the number was reduced. While the admission
  webhook is disabled, a pass that finds any admission webhook Service deletes them
  all instead, and returns \<open>Deleted\<close> with no error when the deletion succeeds.
\<close>

theorem ensure_reduces_when_more_than_one:
  "(1 < length deployments \<longrightarrow>
      ensureDeployment cl metaUpd env (Inr deployments) params =
        (Return Noop None (Some (reducedError cl ''number of deployments reduced'')),
         [ReduceDeployments])) \<and>
   (1 < length serviceAccounts \<longrightarrow>
      ensureServiceAccount cl metaUpd (Inr serviceAccounts) generatedServiceAccount =
        ((False, None, Some (reducedError cl ''number of serviceAccounts reduced'')),
         [ReduceServiceAccounts])) \<and>
   (1 < length clusterRoles \<longrightarrow>
      ensureClusterRole cl metaUpd (Inr clusterRoles) generatedClusterRole =
        ((False, None, Some (reducedError cl ''number of clusterRoles reduced'')),
         [ReduceClusterRoles])) \<and>
   (1 < length roleBindings \<longrightarrow>
      ensureRoleBinding cl metaUpd compareRoleName containsServiceAccount (Inr roleBindings)
          generatedRoleBinding roleName =
        ((Noop, None, Some (reducedError cl ''number of roleBindings reduced'')),
         [ReduceRoleBindings])) \<and>
   (1 < length clusterRoleBindings \<longrightarrow>
      ensureClusterRoleBinding cl metaUpd compareRoleName containsServiceAccount
          (Inr clusterRoleBindings) generatedClusterRoleBinding clusterRoleName =
        ((False, None, Some (reducedError cl ''number of clusterRoleBindings reduced'')),
         [ReduceClusterRoleBindings])) \<and>
   (1 < length services \<longrightarrow>
      ensureAdmissionWebhookService cl metaUpd cp True (Inr services) generatedService =
        ((Noop, None,
          Some (reducedError cl ''number of ControlPlane admission webhook Services reduced'')),
         [ReduceServices])) \<and>
   (services \<noteq> [] \<and> deleteAllErr cl = None \<longrightarrow>
      ensureAdmissionWebhookService cl metaUpd cp False (Inr services) generatedService =
        ((Deleted, None, None), [ClientDeleteAll]))"
proof (intro conjI impI)
  assume "1 < length deployments"
  then show "ensureDeployment cl metaUpd env (Inr deployments) params =
        (Return Noop None (Some (reducedError cl ''number of deployments reduced'')),
         [ReduceDeployments])"
    by (simp add: ensureDeployment_def reducedError_def split: option.splits)
next
  assume "1 < length serviceAccounts"
  then show "ensureServiceAccount cl metaUpd (Inr serviceAccounts) generatedServiceAccount =
        ((False, None, Some (reducedError cl ''number of serviceAccounts reduced'')),
         [ReduceServiceAccounts])"
    by (simp add: ensureServiceAccount_def reducedError_def split: option.splits)
next
  assume "1 < length clusterRoles"
  then show "ensureClusterRole cl metaUpd (Inr clusterRoles) generatedClusterRole =
        ((False, None, Some (reducedError cl ''number of clusterRoles reduced'')),
         [ReduceClusterRoles])"
    by (simp add: ensureClusterRole_def reducedError_def split: option.splits)
next
  assume "1 < length roleBindings"
  then show "ensureRoleBinding cl metaUpd compareRoleName containsServiceAccount (Inr roleBindings)
          generatedRoleBinding roleName =
        ((Noop, None, Some (reducedError cl ''number of roleBindings reduced'')),
         [ReduceRoleBindings])"
    by (simp add: ensureRoleBinding_def reducedError_def split: option.splits)
next
  assume "1 < length clusterRoleBindings"
  then show "ensureClusterRoleBinding cl metaUpd compareRoleName containsServiceAccount
          (Inr clusterRoleBindings) generatedClusterRoleBinding clusterRoleName =
        ((False, None, Some (reducedError cl ''number of clusterRoleBindings reduced'')),
         [ReduceClusterRoleBindings])"
    by (simp add: ensureClusterRoleBinding_def reducedError_def split: option.splits)
next
  assume "1 < length services"
  then show "ensureAdmissionWebhookService cl metaUpd cp True (Inr services) generatedService =
        ((Noop, None,
          Some (reducedError cl ''number of ControlPlane admission webhook Services reduced'')),
         [ReduceServices])"
    by (simp add: ensureAdmissionWebhookService_def reducedError_def split: option.splits)
next
  assume "services \<noteq> [] \<and> deleteAllErr cl = None"
  then show "ensureAdmissionWebhookService cl metaUpd cp False (Inr services) generatedService =
        ((Deleted, None, None), [ClientDeleteAll])"
    by (simp add: ensureAdmissionWebhookService_def)
qed

theorem ensure_reduces_when_more_than_one_witness:
  "ensureDeployment okClient keepMeta (exampleDeploymentEnv False)
     (Inr [exampleDeployment ''a'' (Some 1), exampleDeployment ''b'' (Some 1)])
     (exampleParams None None False) =
     (Return Noop None (Some (ErrorsNew ''number of deployments reduced'')), [ReduceDeployments]) \<and>
   ensureServiceAccount okClient keepMeta
     (Inr [exampleServiceAccount ''a'', exampleServiceAccount ''b'']) (exampleServiceAccount ''kong'') =
     ((False, None, Some (ErrorsNew ''number of serviceAccounts reduced'')), [ReduceServiceAccounts]) \<and>
   ensureClusterRole okClient keepMeta
     (Inr [exampleClusterRole [''configmaps''], exampleClusterRole [''secrets'']])
     (exampleClusterRole [''configmaps'']) =
     ((False, None, Some (ErrorsNew ''number of clusterRoles reduced'')), [ReduceClusterRoles]) \<and>
   ensureRoleBinding okClient keepMeta (\<lambda>b name. b_roleRefName b = name) (\<lambda>b. True)
     (Inr [exampleBinding ''a'', exampleBinding ''b'']) (exampleBinding ''kong'') ''kong'' =
     ((Noop, None, Some (ErrorsNew ''number of roleBindings reduced'')), [ReduceRoleBindings]) \<and>
   ensureClusterRoleBinding okClient keepMeta (\<lambda>b name. b_roleRefName b = name) (\<lambda>b. True)
     (Inr [exampleBinding ''a'', exampleBinding ''b'']) (exampleBinding ''kong'') ''kong'' =
     ((False, None, Some (ErrorsNew ''number of clusterRoleBindings reduced'')),
      [ReduceClusterRoleBindings]) \<and>
   ensureAdmissionWebhookService okClient keepMeta
     (p_controlPlane (exampleParams None None False)) True
     (Inr [exampleService ''webhook-a'', exampleService ''webhook-b''])
     (Inr (exampleService ''webhook'')) =
     ((Noop, None, Some (ErrorsNew ''number of ControlPlane admission webhook Services reduced'')),
      [ReduceServices]) \<and>
   ensureAdmissionWebhookService okClient keepMeta
     (p_controlPlane (exampleParams None None False)) False
     (Inr [exampleService ''webhook-a''])
     (Inr (exampleService ''webhook'')) =
     ((Deleted, None, None), [ClientDeleteAll])"
proof -
  have r: "reducedError okClient message = ErrorsNew message" for message
    by (simp add: reducedError_def okClient_def)
  have d: "deleteAllErr okClient = None" by (simp add: okClient_def)
  show ?thesis
    using d ensure_reduces_when_more_than_one
      [where cl = okClient and metaUpd = keepMeta and env = "exampleDeploymentEnv False"
        and deployments = "[exampleDeployment ''a'' (Some 1), exampleDeployment ''b'' (Some 1)]"
        and params = "exampleParams None None False"
        and serviceAccounts = "[exampleServiceAccount ''a'', exampleServiceAccount ''b'']"
        and generatedServiceAccount = "exampleServiceAccount ''kong''"
        and clusterRoles = "[exampleClusterRole [''configmaps''], exampleClusterRole [''secrets'']]"
        and generatedClusterRole = "exampleClusterRole [''configmaps'']"
        and compareRoleName = "\<lambda>b name. b_roleRefName b = name"
        and containsServiceAccount = "\<lambda>b. True"
        and roleBindings = "[exampleBinding ''a'', exampleBinding ''b'']"
        and generatedRoleBinding = "exampleBinding ''kong''" and roleName = "''kong''"
        and clusterRoleBindings = "[exampleBinding ''a'', exampleBinding ''b'']"
        and generatedClusterRoleBinding = "exampleBinding ''kong''"
        and clusterRoleName = "''kong''"
        and services = "[exampleService ''webhook-a'', exampleService ''webhook-b'']"
        and cp = "p_controlPlane (exampleParams None None False)"
        and generatedService = "Inr (exampleService ''webhook'')"]
      ensure_reduces_when_more_than_one
      [where cl = okClient and metaUpd = keepMeta and env = "exampleDeploymentEnv False"
        and deployments = "[]" and params = "exampleParams None None False"
        and serviceAccounts = "[]" and generatedServiceAccount = "exampleServiceAccount ''kong''"
        and clusterRoles = "[]" and generatedClusterRole = "exampleClusterRole [''configmaps'']"
        and compareRoleName = "\<lambda>b name. b_roleRefName b = name"
        and containsServiceAccount = "\<lambda>b. True"
        and roleBindings = "[]" and generatedRoleBinding = "exampleBinding ''kong''"
        and roleName = "''kong''" and clusterRoleBindings = "[]"
        and generatedClusterRoleBinding = "exampleBinding ''kong''"
        and clusterRoleName = "''kong''"
        and services = "[exampleService ''webhook-a'']"
        and cp = "p_controlPlane (exampleParams None None False)"
        and generatedService = "Inr (exampleService ''webhook'')"]
    by (simp add: r)
qed

end
